theory Spec2Isabelle
  imports Main "HOL-Library.Word"
begin

section \<open>Router parameter model (package config)\<close>

text \<open>
  \<^verbatim>\<open>type RouterParams map[string]interface{}\<close>: a map from parameter names to
  dynamically typed values. The four accessors test for the dynamic types \<^verbatim>\<open>string\<close>,
  \<^verbatim>\<open>int\<close>, \<^verbatim>\<open>[]string\<close> and \<^verbatim>\<open>bool\<close>; every other dynamic type a Go interface
  value can hold (a \<^verbatim>\<open>float64\<close> out of a JSON decoder, a nested map, a nil interface
  stored under the key, ...) is \<open>VOther\<close>. Go's \<^verbatim>\<open>int\<close> is only handed through and never
  computed with, so it is an \<open>int\<close> here.
\<close>

datatype iface_value =
    VString string
  | VInt int
  | VStringSlice "string list"
  | VBool bool
  | VOther

type_synonym RouterParams = "string \<rightharpoonup> iface_value"

type_synonym RouterParam = string

text \<open>
  A comma-ok type assertion on a map read: \<^verbatim>\<open>out, ok := rp[string(key)].(string)\<close>.
  A missing key reads as the nil interface, on which every assertion fails; a failed
  assertion leaves \<^verbatim>\<open>out\<close> at the zero value of the asserted type.
\<close>

definition String :: "RouterParams \<Rightarrow> RouterParam \<Rightarrow> string \<times> bool" where
  "String rp key = (case rp key of Some (VString out) \<Rightarrow> (out, True) | _ \<Rightarrow> ('''', False))"

definition Number :: "RouterParams \<Rightarrow> RouterParam \<Rightarrow> int \<times> bool" where
  "Number rp key = (case rp key of Some (VInt out) \<Rightarrow> (out, True) | _ \<Rightarrow> (0, False))"

definition StringSlice :: "RouterParams \<Rightarrow> RouterParam \<Rightarrow> string list \<times> bool" where
  "StringSlice rp key =
     (case rp key of Some (VStringSlice out) \<Rightarrow> (out, True) | _ \<Rightarrow> ([], False))"

definition Bool :: "RouterParams \<Rightarrow> RouterParam \<Rightarrow> bool \<times> bool" where
  "Bool rp key = (case rp key of Some (VBool out) \<Rightarrow> (out, True) | _ \<Rightarrow> (False, False))"

definition RouterTypeReframe :: string where "RouterTypeReframe = ''reframe''"
definition RouterTypeDHT :: string where "RouterTypeDHT = ''dht''"

definition RouterParamEndpoint :: RouterParam where "RouterParamEndpoint = ''Endpoint''"
definition RouterParamPriority :: RouterParam where "RouterParamPriority = ''Priority''"
definition RouterParamDHTType :: RouterParam where "RouterParamDHTType = ''Mode''"
definition RouterParamTrackFullNetworkDHT :: RouterParam where
  "RouterParamTrackFullNetworkDHT = ''TrackFullNetworkDHT''"
definition RouterParamBootstrappers :: RouterParam where
  "RouterParamBootstrappers = ''Bootstrappers''"
definition RouterParamPublicIPNetwork :: RouterParam where
  "RouterParamPublicIPNetwork = ''Public-IP-Network''"

definition RouterValueDHTTypeServer :: string where "RouterValueDHTTypeServer = ''dhtserver''"
definition RouterValueDHTTypeClient :: string where "RouterValueDHTTypeClient = ''dhtclient''"
definition RouterValueDHTTypeNone :: string where "RouterValueDHTTypeNone = ''none''"
definition RouterValueDHTType :: string where "RouterValueDHTType = ''dht''"

definition RouterValueDHTTypes :: "string list" where
  "RouterValueDHTTypes =
     [RouterValueDHTType, RouterValueDHTTypeServer, RouterValueDHTTypeClient,
      RouterValueDHTTypeNone]"

text \<open>
  Modelled from the spec: \<^verbatim>\<open>Flag\<close> is declared in a file of package config that is not
  among the sources. The spec has the \<^verbatim>\<open>Enabled\<close> field be a tri-state flag
  (true/false/default). No function modelled here reads it.
\<close>

datatype Flag = FlagDefault | FlagTrue | FlagFalse

record Router =
  Type :: string
  Enabled :: Flag
  Parameters :: RouterParams

section \<open>Priorities (package routing)\<close>

definition defaultPriority :: int where "defaultPriority = 100000"

definition GetPriority :: "RouterParams \<Rightarrow> int" where
  "GetPriority params =
     (let (param, ok) = Number params RouterParamPriority
      in if \<not> ok then defaultPriority else param)"

section \<open>Backend router factory (package routing)\<close>

text \<open>
  The routers a factory call can hand back as a \<^verbatim>\<open>routing.Routing\<close>: the no-op
  \<^verbatim>\<open>routinghelpers.Null{}\<close>, whatever \<^verbatim>\<open>dht.New\<close> built, whatever
  \<^verbatim>\<open>fullrt.NewFullRT\<close> built, and the \<^verbatim>\<open>reframeRoutingWrapper\<close> struct with its two
  fields \<^verbatim>\<open>Client\<close> and \<^verbatim>\<open>ContentRoutingClient\<close>. The libraries' objects are opaque
  (type parameters).
\<close>

datatype ('dht, 'frt, 'c, 'crc) Routing =
    Null
  | IpfsDHT 'dht
  | FullRT 'frt
  | reframeRoutingWrapper 'c 'crc

text \<open>
  Errors. \<^verbatim>\<open>InvalidValueError\<close> is the struct the source builds field by field
  (\<^verbatim>\<open>ParamName\<close>, \<^verbatim>\<open>InvalidValue\<close>, \<^verbatim>\<open>ValidValues\<close>). An error returned by one of the
  libraries is handed on as it is (\<open>LibraryError\<close>). Dereferencing a nil
  \<^verbatim>\<open>*ExtraDHTParams\<close> is a run-time panic, not a returned error; it is a value of this
  type all the same so that the model has a branch for it.
\<close>

datatype 'x error =
    ParamNeededError RouterParam string
  | InvalidValueError RouterParam string "string list"
  | LibraryError 'x
  | NilPointerPanic

text \<open>
  Modelled from the spec: \<^verbatim>\<open>NewParamNeededErr\<close> is declared in a file of package routing
  that is not among the sources. The spec has it build the "missing required parameter"
  error naming the parameter and the router type.
\<close>

definition NewParamNeededErr :: "RouterParam \<Rightarrow> string \<Rightarrow> 'x error" where
  "NewParamNeededErr param routing = ParamNeededError param routing"

text \<open>
  \<^verbatim>\<open>ReframeRoutingFromConfig\<close>. The three constructors of the delegated-routing client
  library are parameters: \<^verbatim>\<open>drp.New_DelegatedRouting_Client\<close> (which can fail),
  \<^verbatim>\<open>drc.NewClient\<close> and \<^verbatim>\<open>drc.NewContentRoutingClient\<close>.
\<close>

definition ReframeRoutingFromConfig ::
  "(string \<Rightarrow> 'x + 'dr) \<Rightarrow> ('dr \<Rightarrow> 'c) \<Rightarrow> ('c \<Rightarrow> 'crc) \<Rightarrow> Router
     \<Rightarrow> 'x error + ('dht, 'frt, 'c, 'crc) Routing" where
  "ReframeRoutingFromConfig New_DelegatedRouting_Client NewClient NewContentRoutingClient conf =
     (let (addr, ok) = String (Parameters conf) RouterParamEndpoint
      in if \<not> ok then Inl (NewParamNeededErr RouterParamEndpoint (Type conf))
         else (case New_DelegatedRouting_Client addr of
                 Inl err \<Rightarrow> Inl (LibraryError err)
               | Inr dr \<Rightarrow>
                   (let c = NewClient dr;
                        crc = NewContentRoutingClient c
                    in Inr (reframeRoutingWrapper c crc))))"

record ('p, 'h, 'v, 'ds, 'ctx) ExtraDHTParams =
  ExperimentalTrackFullNetworkDHT :: bool
  BootstrapPeers :: "'p list"
  Host :: 'h
  Validator :: 'v
  Datastore :: 'ds
  Context :: 'ctx

text \<open>
  The DHT library's operating modes and the options the source passes to its constructors.
\<close>

datatype ModeOpt = ModeAuto | ModeClient | ModeServer | ModeAutoServer

datatype ('ds, 'v, 'p) dht_Option =
    dht_Concurrency int
  | dht_Mode ModeOpt
  | dht_Datastore 'ds
  | dht_Validator 'v
  | dht_BootstrapPeers "'p list"
  | dht_BucketSize int

datatype ('ds, 'v, 'p) fullrt_Option =
    fullrt_DHTOption "('ds, 'v, 'p) dht_Option list"

text \<open>
  \<^verbatim>\<open>createDHT\<close> and \<^verbatim>\<open>createFullRT\<close>. The library constructors \<^verbatim>\<open>dht.New\<close> and
  \<^verbatim>\<open>fullrt.NewFullRT\<close> and the library constant \<^verbatim>\<open>dht.DefaultPrefix\<close> are parameters.
  \<^verbatim>\<open>params\<close> is a pointer: \<open>None\<close> is nil, and both functions read its fields unguarded.
\<close>

definition createDHT ::
  "('ctx \<Rightarrow> 'h \<Rightarrow> ('ds, 'v, 'p) dht_Option list \<Rightarrow> 'x + 'dht)
     \<Rightarrow> ('p, 'h, 'v, 'ds, 'ctx) ExtraDHTParams option \<Rightarrow> ModeOpt
     \<Rightarrow> 'x error + ('dht, 'frt, 'c, 'crc) Routing" where
  "createDHT dht_New params mode =
     (case params of
        None \<Rightarrow> Inl NilPointerPanic
      | Some ps \<Rightarrow>
          (case dht_New (Context ps) (Host ps)
                  [dht_Concurrency 10,
                   dht_Mode mode,
                   dht_Datastore (Datastore ps),
                   dht_Validator (Validator ps),
                   dht_BootstrapPeers (BootstrapPeers ps)] of
             Inl err \<Rightarrow> Inl (LibraryError err)
           | Inr d \<Rightarrow> Inr (IpfsDHT d)))"

definition createFullRT ::
  "('h \<Rightarrow> 'pre \<Rightarrow> ('ds, 'v, 'p) fullrt_Option list \<Rightarrow> 'x + 'frt) \<Rightarrow> 'pre
     \<Rightarrow> ('p, 'h, 'v, 'ds, 'ctx) ExtraDHTParams option
     \<Rightarrow> 'x error + ('dht, 'frt, 'c, 'crc) Routing" where
  "createFullRT fullrt_NewFullRT dht_DefaultPrefix params =
     (case params of
        None \<Rightarrow> Inl NilPointerPanic
      | Some ps \<Rightarrow>
          (case fullrt_NewFullRT (Host ps) dht_DefaultPrefix
                  [fullrt_DHTOption
                     [dht_Validator (Validator ps),
                      dht_Datastore (Datastore ps),
                      dht_BootstrapPeers (BootstrapPeers ps),
                      dht_BucketSize 20]] of
             Inl err \<Rightarrow> Inl (LibraryError err)
           | Inr f \<Rightarrow> Inr (FullRT f)))"

text \<open>
  \<^verbatim>\<open>DHTRoutingFromConfig\<close>. The \<^verbatim>\<open>switch\<close> either returns at once (\<open>Inl\<close>: the null
  router for \<^verbatim>\<open>"none"\<close>, the error in the \<^verbatim>\<open>default\<close> case) or leaves a mode (\<open>Inr\<close>)
  for the call of \<^verbatim>\<open>createDHT\<close> after it. The second result of the \<^verbatim>\<open>String\<close> read is
  discarded, as in the source.
\<close>

definition DHTRoutingFromConfig ::
  "('ctx \<Rightarrow> 'h \<Rightarrow> ('ds, 'v, 'p) dht_Option list \<Rightarrow> 'x + 'dht)
     \<Rightarrow> ('h \<Rightarrow> 'pre \<Rightarrow> ('ds, 'v, 'p) fullrt_Option list \<Rightarrow> 'x + 'frt) \<Rightarrow> 'pre
     \<Rightarrow> Router \<Rightarrow> ('p, 'h, 'v, 'ds, 'ctx) ExtraDHTParams option
     \<Rightarrow> 'x error + ('dht, 'frt, 'c, 'crc) Routing" where
  "DHTRoutingFromConfig dht_New fullrt_NewFullRT dht_DefaultPrefix conf params =
     (let (fullDHT, ok) = Bool (Parameters conf) RouterParamTrackFullNetworkDHT
      in if fullDHT \<and> ok then createFullRT fullrt_NewFullRT dht_DefaultPrefix params
         else
           (let dhtTP = fst (String (Parameters conf) RouterParamDHTType)
            in case (if dhtTP = RouterValueDHTType then Inr ModeAuto
                     else if dhtTP = RouterValueDHTTypeClient then Inr ModeClient
                     else if dhtTP = RouterValueDHTTypeServer then Inr ModeServer
                     else if dhtTP = RouterValueDHTTypeNone then Inl (Inr Null)
                     else Inl (Inl (InvalidValueError RouterParamDHTType dhtTP
                                      RouterValueDHTTypes))) of
                 Inl returned \<Rightarrow> returned
               | Inr mode \<Rightarrow> createDHT dht_New params mode))"

section \<open>Tiered router (package routing)\<close>

text \<open>
  \<^verbatim>\<open>Tiered\<close> embeds \<^verbatim>\<open>routinghelpers.Tiered\<close>, of which the source reads the
  \<^verbatim>\<open>Routers\<close> slice. The type test \<^verbatim>\<open>pm, ok := r.(ProvideMany)\<close> is a parameter
  (\<open>asProvideMany\<close>: \<open>Some pm\<close> when \<^verbatim>\<open>ok\<close>), since neither the interface nor the
  routers' types are declared in the sources. \<^verbatim>\<open>ProvideManyWrapper\<close> is the struct built
  with its one field \<^verbatim>\<open>pms\<close>; the nil interface returned for an empty list is \<open>None\<close>.
\<close>

record 'r Tiered =
  Routers :: "'r list"

datatype 'pm ProvideManyWrapper = ProvideManyWrapper "'pm list"

fun ProvideMany_loop :: "('r \<Rightarrow> 'pm option) \<Rightarrow> 'r list \<Rightarrow> 'pm list \<Rightarrow> 'pm list" where
  "ProvideMany_loop asProvideMany [] pms = pms"
| "ProvideMany_loop asProvideMany (r # rs) pms =
     (case asProvideMany r of
        None \<Rightarrow> ProvideMany_loop asProvideMany rs pms
      | Some pm \<Rightarrow> ProvideMany_loop asProvideMany rs (pms @ [pm]))"

definition ProvideMany ::
  "('r \<Rightarrow> 'pm option) \<Rightarrow> 'r Tiered \<Rightarrow> 'pm ProvideManyWrapper option" where
  "ProvideMany asProvideMany ds =
     (let pms = ProvideMany_loop asProvideMany (Routers ds) []
      in if length pms = 0 then None else Some (ProvideManyWrapper pms))"

section \<open>Resource-admission wrapper (package libp2p)\<close>

text \<open>
  The wrapped resource manager and the wrapped scopes are interface values with state of
  their own: a delegate is a state (type parameter) and, per method, a function from the
  state and the arguments to the result and the next state. What a call of the wrapper
  does besides returning is kept as a trace of events, in program order: each call of a
  delegate method with its arguments, each \<^verbatim>\<open>fmt.Println\<close> with the values printed, and
  each wait (\<^verbatim>\<open><-time.After(1 * time.Second)\<close>, \<^verbatim>\<open>time.Sleep(1 * time.Second)\<close>) with its
  length in seconds. The counters are \<^verbatim>\<open>int64\<close>; \<^verbatim>\<open>atomic.AddInt64\<close> wraps around.
  One call is followed on its own, without other goroutines in between.
\<close>

datatype Direction = DirUnknown | DirInbound | DirOutbound

datatype 'e printed = PString string | PError 'e | PInt64 "64 word"

datatype ('e, 'a, 'p) event =
    DelegateOpenConnection Direction bool 'a
  | DelegateOpenStream 'p Direction
  | DelegateBeginSpan
  | DelegateReserveMemory int "8 word"
  | Println "'e printed list"
  | Sleep nat

record 'd backpressureResourceManager =
  delegate :: 'd
  connCount :: "64 word"
  streamCount :: "64 word"

text \<open>
  The \<^verbatim>\<open>for\<close> loop of \<^verbatim>\<open>OpenConnection\<close>. It has no exit but the \<^verbatim>\<open>return\<close> on success, so
  it is a partial function: \<open>None\<close> is a call that never returns.
\<close>

partial_function (option) OpenConnection_loop ::
  "('d \<Rightarrow> Direction \<Rightarrow> bool \<Rightarrow> 'a \<Rightarrow> ('e + 'cms) \<times> 'd) \<Rightarrow> Direction \<Rightarrow> bool \<Rightarrow> 'a
     \<Rightarrow> 'd backpressureResourceManager \<times> ('e, 'a, 'p) event list
     \<Rightarrow> (('e + 'cms) \<times> 'd backpressureResourceManager \<times> ('e, 'a, 'p) event list) option"
where
  "OpenConnection_loop delegate_OpenConnection dir usefd endpoint st =
     (case st of (bprm, tr) \<Rightarrow>
        (case delegate_OpenConnection (delegate bprm) dir usefd endpoint of
           (Inr cms, d) \<Rightarrow>
             Some (Inr cms,
                   bprm\<lparr>delegate := d, connCount := connCount bprm + (- 1)\<rparr>,
                   tr @ [DelegateOpenConnection dir usefd endpoint])
         | (Inl err, d) \<Rightarrow>
             OpenConnection_loop delegate_OpenConnection dir usefd endpoint
               (bprm\<lparr>delegate := d\<rparr>,
                tr @ [DelegateOpenConnection dir usefd endpoint,
                      Println [PString ''OPENING CONNECTION ERROR, RETRYING'', PError err,
                               PInt64 (connCount bprm)],
                      Sleep 1,
                      Println [PString ''RETRYING CONNECTION'', PInt64 (connCount bprm)]])))"

definition OpenConnection ::
  "('d \<Rightarrow> Direction \<Rightarrow> bool \<Rightarrow> 'a \<Rightarrow> ('e + 'cms) \<times> 'd)
     \<Rightarrow> 'd backpressureResourceManager \<Rightarrow> ('e, 'a, 'p) event list
     \<Rightarrow> Direction \<Rightarrow> bool \<Rightarrow> 'a
     \<Rightarrow> (('e + 'cms) \<times> 'd backpressureResourceManager \<times> ('e, 'a, 'p) event list) option"
where
  "OpenConnection delegate_OpenConnection bprm tr dir usefd endpoint =
     OpenConnection_loop delegate_OpenConnection dir usefd endpoint
       (bprm\<lparr>connCount := connCount bprm + 1\<rparr>, tr)"

partial_function (option) OpenStream_loop ::
  "('d \<Rightarrow> 'p \<Rightarrow> Direction \<Rightarrow> ('e + 'sms) \<times> 'd) \<Rightarrow> 'p \<Rightarrow> Direction
     \<Rightarrow> 'd backpressureResourceManager \<times> ('e, 'a, 'p) event list
     \<Rightarrow> (('e + 'sms) \<times> 'd backpressureResourceManager \<times> ('e, 'a, 'p) event list) option"
where
  "OpenStream_loop delegate_OpenStream p dir st =
     (case st of (bprm, tr) \<Rightarrow>
        (case delegate_OpenStream (delegate bprm) p dir of
           (Inr str, d) \<Rightarrow>
             Some (Inr str,
                   bprm\<lparr>delegate := d, streamCount := streamCount bprm + (- 1)\<rparr>,
                   tr @ [DelegateOpenStream p dir])
         | (Inl err, d) \<Rightarrow>
             OpenStream_loop delegate_OpenStream p dir
               (bprm\<lparr>delegate := d\<rparr>,
                tr @ [DelegateOpenStream p dir,
                      Println [PString ''OPENING STREAM ERROR, RETRYING'', PError err,
                               PInt64 (streamCount bprm)],
                      Sleep 1,
                      Println [PString ''RETRYING STREAM'', PInt64 (streamCount bprm)]])))"

definition OpenStream ::
  "('d \<Rightarrow> 'p \<Rightarrow> Direction \<Rightarrow> ('e + 'sms) \<times> 'd)
     \<Rightarrow> 'd backpressureResourceManager \<Rightarrow> ('e, 'a, 'p) event list \<Rightarrow> 'p \<Rightarrow> Direction
     \<Rightarrow> (('e + 'sms) \<times> 'd backpressureResourceManager \<times> ('e, 'a, 'p) event list) option"
where
  "OpenStream delegate_OpenStream bprm tr p dir =
     OpenStream_loop delegate_OpenStream p dir
       (bprm\<lparr>streamCount := streamCount bprm + 1\<rparr>, tr)"

text \<open>
  \<^verbatim>\<open>resourceScopeSpan\<close>: the wrapped span (field \<^verbatim>\<open>delegate\<close>, here \<open>span_delegate\<close>, the
  name being taken by the resource manager's field) and its counter.
\<close>

record 'sd resourceScopeSpan =
  span_delegate :: 'sd
  counter :: "64 word"

definition ReserveMemory ::
  "('sd \<Rightarrow> int \<Rightarrow> 8 word \<Rightarrow> 'e option \<times> 'sd)
     \<Rightarrow> 'sd resourceScopeSpan \<Rightarrow> ('e, 'a, 'p) event list \<Rightarrow> int \<Rightarrow> 8 word
     \<Rightarrow> 'e option \<times> 'sd resourceScopeSpan \<times> ('e, 'a, 'p) event list" where
  "ReserveMemory delegate_ReserveMemory rss tr size' prio =
     (case delegate_ReserveMemory (span_delegate rss) size' prio of
        (err, d) \<Rightarrow>
          (err,
           rss\<lparr>span_delegate := d\<rparr>,
           tr @ [DelegateReserveMemory size' prio] @
             (case err of
                None \<Rightarrow> []
              | Some e \<Rightarrow>
                  [Println [PString ''++++++++++++++++++++++++++++++++++++++ RESERVE MEMORY ERROR'',
                            PError e]])))"

text \<open>
  \<^verbatim>\<open>BeginSpan\<close>: the same loop, with the counter moved inside it: up by one after each
  failed attempt (before the two prints, which show the new value), down by one on success.
\<close>

partial_function (option) BeginSpan ::
  "('sd \<Rightarrow> ('e + 'span) \<times> 'sd)
     \<Rightarrow> 'sd resourceScopeSpan \<times> ('e, 'a, 'p) event list
     \<Rightarrow> (('e + 'span) \<times> 'sd resourceScopeSpan \<times> ('e, 'a, 'p) event list) option"
where
  "BeginSpan delegate_BeginSpan st =
     (case st of (rss, tr) \<Rightarrow>
        (case delegate_BeginSpan (span_delegate rss) of
           (Inr span, d) \<Rightarrow>
             Some (Inr span,
                   rss\<lparr>span_delegate := d, counter := counter rss + (- 1)\<rparr>,
                   tr @ [DelegateBeginSpan])
         | (Inl err, d) \<Rightarrow>
             BeginSpan delegate_BeginSpan
               (rss\<lparr>span_delegate := d, counter := counter rss + 1\<rparr>,
                tr @ [DelegateBeginSpan,
                      Println [PString ''BEGIN SPAN, RETRYING'', PError err,
                               PInt64 (counter rss + 1)],
                      Sleep 1,
                      Println [PString ''RETRYING SPAN'', PInt64 (counter rss + 1)]])))"

section \<open>Observations on runs\<close>

text \<open>
  What a delegate does over a run of calls with the same arguments: \<open>rejects call n d\<close> is
  \<open>Some (errs, d')\<close> when each of the next \<open>n\<close> calls, from delegate state \<open>d\<close>, is rejected,
  with the errors \<open>errs\<close> in order and the delegate left in state \<open>d'\<close>; it is \<open>None\<close> as soon
  as one of these calls is admitted.
\<close>

fun rejects :: "('d \<Rightarrow> ('e + 'c) \<times> 'd) \<Rightarrow> nat \<Rightarrow> 'd \<Rightarrow> ('e list \<times> 'd) option" where
  "rejects call 0 d = Some ([], d)"
| "rejects call (Suc n) d =
     (case call d of
        (Inl err, d') \<Rightarrow>
          (case rejects call n d' of
             None \<Rightarrow> None
           | Some (errs, d'') \<Rightarrow> Some (err # errs, d''))
      | (Inr _, _) \<Rightarrow> None)"

text \<open>The waits of a trace, in order, and its calls of delegate methods, in order.\<close>

fun sleeps :: "('e, 'a, 'p) event list \<Rightarrow> nat list" where
  "sleeps [] = []"
| "sleeps (Sleep s # tr) = s # sleeps tr"
| "sleeps (_ # tr) = sleeps tr"

fun is_delegate_call :: "('e, 'a, 'p) event \<Rightarrow> bool" where
  "is_delegate_call (Println _) = False"
| "is_delegate_call (Sleep _) = False"
| "is_delegate_call _ = True"

definition delegate_calls :: "('e, 'a, 'p) event list \<Rightarrow> ('e, 'a, 'p) event list" where
  "delegate_calls tr = filter is_delegate_call tr"

text \<open>
  The events of the failed rounds of each loop, one round per error. In \<^verbatim>\<open>OpenConnection\<close>
  and \<^verbatim>\<open>OpenStream\<close> the counter printed is the same in every round; in \<^verbatim>\<open>BeginSpan\<close> it
  has gone up by one in each.
\<close>

fun OpenConnection_rounds ::
  "Direction \<Rightarrow> bool \<Rightarrow> 'a \<Rightarrow> 64 word \<Rightarrow> 'e list \<Rightarrow> ('e, 'a, 'p) event list" where
  "OpenConnection_rounds dir usefd endpoint c [] = []"
| "OpenConnection_rounds dir usefd endpoint c (err # errs) =
     [DelegateOpenConnection dir usefd endpoint,
      Println [PString ''OPENING CONNECTION ERROR, RETRYING'', PError err, PInt64 c],
      Sleep 1,
      Println [PString ''RETRYING CONNECTION'', PInt64 c]]
     @ OpenConnection_rounds dir usefd endpoint c errs"

fun OpenStream_rounds ::
  "'p \<Rightarrow> Direction \<Rightarrow> 64 word \<Rightarrow> 'e list \<Rightarrow> ('e, 'a, 'p) event list" where
  "OpenStream_rounds p dir c [] = []"
| "OpenStream_rounds p dir c (err # errs) =
     [DelegateOpenStream p dir,
      Println [PString ''OPENING STREAM ERROR, RETRYING'', PError err, PInt64 c],
      Sleep 1,
      Println [PString ''RETRYING STREAM'', PInt64 c]]
     @ OpenStream_rounds p dir c errs"

fun BeginSpan_rounds :: "64 word \<Rightarrow> 'e list \<Rightarrow> ('e, 'a, 'p) event list" where
  "BeginSpan_rounds c [] = []"
| "BeginSpan_rounds c (err # errs) =
     [DelegateBeginSpan,
      Println [PString ''BEGIN SPAN, RETRYING'', PError err, PInt64 (c + 1)],
      Sleep 1,
      Println [PString ''RETRYING SPAN'', PInt64 (c + 1)]]
     @ BeginSpan_rounds (c + 1) errs"

section \<open>Sample inputs\<close>

text \<open>
  A delegate whose state counts the calls made to it: it rejects while fewer than \<open>k\<close>
  calls came before, and admits from then on, handing out the call's number as the scope.
\<close>

definition admits_after :: "nat \<Rightarrow> nat \<Rightarrow> (string + nat) \<times> nat" where
  "admits_after k d =
     (if d < k then (Inl ''resource limit exceeded'', Suc d) else (Inr d, Suc d))"

text \<open>
  A span whose state is the memory reserved so far, with a limit of 100 bytes: a
  reservation over the limit fails and reserves nothing.
\<close>

definition limited_ReserveMemory :: "int \<Rightarrow> int \<Rightarrow> 8 word \<Rightarrow> string option \<times> int" where
  "limited_ReserveMemory reserved size' prio =
     (if 100 < reserved + size' then (Some ''memory limit exceeded'', reserved)
      else (None, reserved + size'))"

text \<open>Library constructors that succeed, a parameter record and a configuration entry.\<close>

definition ok_dht_New :: "unit \<Rightarrow> string \<Rightarrow> (unit, unit, string) dht_Option list \<Rightarrow> string + nat"
  where "ok_dht_New ctx h opts = Inr 1"

definition ok_NewFullRT ::
  "string \<Rightarrow> string \<Rightarrow> (unit, unit, string) fullrt_Option list \<Rightarrow> string + nat"
  where "ok_NewFullRT h prefix opts = Inr 2"

definition sample_params :: "(string, string, unit, unit, unit) ExtraDHTParams" where
  "sample_params =
     \<lparr>ExperimentalTrackFullNetworkDHT = False, BootstrapPeers = [''peer1''], Host = ''host'',
      Validator = (), Datastore = (), Context = ()\<rparr>"

definition conf_of :: "string \<Rightarrow> (string \<times> iface_value) list \<Rightarrow> Router" where
  "conf_of t ps = \<lparr>Type = t, Enabled = FlagDefault, Parameters = map_of ps\<rparr>"

section \<open>Properties of the parameter accessors\<close>

lemmas param_names =
  RouterParamEndpoint_def RouterParamPriority_def RouterParamDHTType_def
  RouterParamTrackFullNetworkDHT_def

lemmas mode_values =
  RouterValueDHTTypeServer_def RouterValueDHTTypeClient_def RouterValueDHTTypeNone_def
  RouterValueDHTType_def RouterValueDHTTypes_def

lemma String_present: "rp key = Some (VString s) \<Longrightarrow> String rp key = (s, True)"
  by (simp add: String_def)

lemma String_absent: "rp key = None \<Longrightarrow> String rp key = ('''', False)"
  by (simp add: String_def)

lemma String_mistyped:
  "rp key = Some v \<Longrightarrow> \<forall>s. v \<noteq> VString s \<Longrightarrow> String rp key = ('''', False)"
  by (cases v) (auto simp: String_def)

lemma Number_present: "rp key = Some (VInt n) \<Longrightarrow> Number rp key = (n, True)"
  by (simp add: Number_def)

lemma Number_absent: "rp key = None \<Longrightarrow> Number rp key = (0, False)"
  by (simp add: Number_def)

lemma Number_mistyped:
  "rp key = Some v \<Longrightarrow> \<forall>n. v \<noteq> VInt n \<Longrightarrow> Number rp key = (0, False)"
  by (cases v) (auto simp: Number_def)

lemma StringSlice_absent: "rp key = None \<Longrightarrow> StringSlice rp key = ([], False)"
  by (simp add: StringSlice_def)

lemma StringSlice_mistyped:
  "rp key = Some v \<Longrightarrow> \<forall>ss. v \<noteq> VStringSlice ss \<Longrightarrow> StringSlice rp key = ([], False)"
  by (cases v) (auto simp: StringSlice_def)

lemma Bool_present: "rp key = Some (VBool b) \<Longrightarrow> Bool rp key = (b, True)"
  by (simp add: Bool_def)

lemma Bool_absent: "rp key = None \<Longrightarrow> Bool rp key = (False, False)"
  by (simp add: Bool_def)

lemma Bool_mistyped:
  "rp key = Some v \<Longrightarrow> \<forall>b. v \<noteq> VBool b \<Longrightarrow> Bool rp key = (False, False)"
  by (cases v) (auto simp: Bool_def)

section \<open>Priorities\<close>

lemma GetPriority_present:
  "params RouterParamPriority = Some (VInt p) \<Longrightarrow> GetPriority params = p"
  by (simp add: GetPriority_def Number_present)

lemma GetPriority_default:
  assumes "\<forall>p. params RouterParamPriority \<noteq> Some (VInt p)"
  shows "GetPriority params = defaultPriority"
proof (cases "params RouterParamPriority")
  case None
  then show ?thesis by (simp add: GetPriority_def Number_absent)
next
  case (Some v)
  with assms have "\<forall>p. v \<noteq> VInt p" by simp
  with Some show ?thesis by (simp add: GetPriority_def Number_mistyped)
qed

text \<open>
  Claim C8, as stated, fails in its last part: a configured priority above 100000 is
  returned as it is, so in ascending order of priority a router without a priority comes
  before the router configured with 100001, and not last.
\<close>

theorem GetPriority_unset_not_last_counterexample:
  "GetPriority [''Priority'' \<mapsto> VInt 100001] = 100001 \<and>
   GetPriority Map.empty = 100000 \<and>
   GetPriority Map.empty < GetPriority [''Priority'' \<mapsto> VInt 100001]"
  by (simp add: GetPriority_def Number_def RouterParamPriority_def defaultPriority_def)

text \<open>
  Claim C8, amended. \<open>GetPriority\<close> returns the value stored under \<open>Priority\<close> when that
  value is an integer, and 100000 when the key is missing or holds a value of any other
  type. In ascending order of priority a router without a priority therefore comes after
  every router whose configured priority is below 100000, level with one configured at
  100000, and before every router configured above 100000.
\<close>

theorem GetPriority_configured_or_sentinel:
  "(params ''Priority'' = Some (VInt p) \<longrightarrow> GetPriority params = p) \<and>
   (params ''Priority'' = None \<longrightarrow> GetPriority params = 100000) \<and>
   (params ''Priority'' = Some v \<and> (\<forall>q. v \<noteq> VInt q) \<longrightarrow> GetPriority params = 100000) \<and>
   (params ''Priority'' = Some (VInt p) \<and> (\<forall>q. unset ''Priority'' \<noteq> Some (VInt q)) \<longrightarrow>
      (GetPriority params < GetPriority unset) = (p < 100000) \<and>
      (GetPriority params = GetPriority unset) = (p = 100000) \<and>
      (GetPriority unset < GetPriority params) = (100000 < p))"
proof -
  have configured: "GetPriority params = p" if "params ''Priority'' = Some (VInt p)"
    using that GetPriority_present[of params p] by (simp add: RouterParamPriority_def)
  have sentinel: "GetPriority ps = 100000" if "\<forall>q. ps ''Priority'' \<noteq> Some (VInt q)" for ps
    using that GetPriority_default[of ps]
    by (simp add: RouterParamPriority_def defaultPriority_def)
  have absent: "GetPriority params = 100000" if "params ''Priority'' = None"
    using that sentinel[of params] by simp
  have mistyped: "GetPriority params = 100000"
    if "params ''Priority'' = Some v \<and> (\<forall>q. v \<noteq> VInt q)"
    using that sentinel[of params] by simp
  show ?thesis
    using configured absent mistyped sentinel[of unset] by auto
qed

theorem GetPriority_configured_or_sentinel_witness:
  "GetPriority [''Priority'' \<mapsto> VInt 50] = 50 \<and>
   GetPriority Map.empty = 100000 \<and>
   GetPriority [''Priority'' \<mapsto> VString ''50''] = 100000 \<and>
   GetPriority [''Priority'' \<mapsto> VInt 50] < GetPriority Map.empty \<and>
   GetPriority [''Priority'' \<mapsto> VInt 50] < GetPriority [''Priority'' \<mapsto> VString ''50''] \<and>
   GetPriority Map.empty < GetPriority [''Priority'' \<mapsto> VInt 100001]"
  using GetPriority_configured_or_sentinel
          [of "[''Priority'' \<mapsto> VInt 50]" 50 "VString ''50''" Map.empty]
        GetPriority_configured_or_sentinel
          [of "[''Priority'' \<mapsto> VInt 50]" 50 "VString ''50''"
              "[''Priority'' \<mapsto> VString ''50'']"]
        GetPriority_configured_or_sentinel
          [of "[''Priority'' \<mapsto> VInt 100001]" 100001 "VString ''50''" Map.empty]
        GetPriority_configured_or_sentinel
          [of Map.empty 0 "VString ''50''" Map.empty]
        GetPriority_configured_or_sentinel
          [of "[''Priority'' \<mapsto> VString ''50'']" 0 "VString ''50''" Map.empty]
  by simp

section \<open>Delegated-routing construction\<close>

lemma Reframe_missing:
  "\<forall>s. Parameters conf RouterParamEndpoint \<noteq> Some (VString s) \<Longrightarrow>
   ReframeRoutingFromConfig newDR newC newCRC conf =
     Inl (NewParamNeededErr RouterParamEndpoint (Type conf))"
  by (auto simp: ReframeRoutingFromConfig_def String_def
           split: option.splits iface_value.splits)

lemma Reframe_present:
  "Parameters conf RouterParamEndpoint = Some (VString addr) \<Longrightarrow>
   ReframeRoutingFromConfig newDR newC newCRC conf =
     (case newDR addr of
        Inl err \<Rightarrow> Inl (LibraryError err)
      | Inr dr \<Rightarrow> Inr (reframeRoutingWrapper (newC dr) (newCRC (newC dr))))"
  by (simp add: ReframeRoutingFromConfig_def String_present Let_def split: sum.splits)

text \<open>
  Claim C7. When the parameters of a delegated (reframe) router hold no string under
  \<open>Endpoint\<close> (the key is missing, or its value has another type), construction fails with
  the missing-parameter error built from the parameter name \<open>Endpoint\<close> and the router's
  \<open>Type\<close>. When \<open>Endpoint\<close> is a string, the result is the library constructor's error or
  the wrapper around the client it built, and never a missing-parameter error.
\<close>

theorem ReframeRoutingFromConfig_needs_Endpoint:
  "(let result = (ReframeRoutingFromConfig newDR newC newCRC conf
                    :: 'x error + ('dht, 'frt, 'c, 'crc) Routing)
    in ((\<forall>s. Parameters conf ''Endpoint'' \<noteq> Some (VString s)) \<longrightarrow>
          result = Inl (NewParamNeededErr ''Endpoint'' (Type conf)) \<and>
          result = Inl (ParamNeededError ''Endpoint'' (Type conf))) \<and>
       (Parameters conf ''Endpoint'' = Some (VString addr) \<longrightarrow>
          result =
            (case newDR addr of
               Inl err \<Rightarrow> Inl (LibraryError err)
             | Inr dr \<Rightarrow> Inr (reframeRoutingWrapper (newC dr) (newCRC (newC dr)))) \<and>
          (\<forall>param routing. result \<noteq> Inl (NewParamNeededErr param routing))))"
proof -
  have missing:
    "(ReframeRoutingFromConfig newDR newC newCRC conf
        :: 'x error + ('dht, 'frt, 'c, 'crc) Routing) =
       Inl (NewParamNeededErr ''Endpoint'' (Type conf))"
    if "\<forall>s. Parameters conf ''Endpoint'' \<noteq> Some (VString s)"
    using that Reframe_missing[of conf newDR newC newCRC]
    by (simp add: RouterParamEndpoint_def)
  have present:
    "(ReframeRoutingFromConfig newDR newC newCRC conf
        :: 'x error + ('dht, 'frt, 'c, 'crc) Routing) =
       (case newDR addr of
          Inl err \<Rightarrow> Inl (LibraryError err)
        | Inr dr \<Rightarrow> Inr (reframeRoutingWrapper (newC dr) (newCRC (newC dr))))"
    if "Parameters conf ''Endpoint'' = Some (VString addr)"
    using that Reframe_present[of conf addr newDR newC newCRC]
    by (simp add: RouterParamEndpoint_def)
  have other:
    "(case newDR addr of
        Inl err \<Rightarrow> Inl (LibraryError err)
      | Inr dr \<Rightarrow> Inr (reframeRoutingWrapper (newC dr) (newCRC (newC dr)))) \<noteq>
     (Inl (NewParamNeededErr param routing) :: 'x error + ('dht, 'frt, 'c, 'crc) Routing)"
    for param routing
    by (cases "newDR addr") (simp_all add: NewParamNeededErr_def)
  show ?thesis
    unfolding Let_def using missing present other
    by (simp add: NewParamNeededErr_def)
qed

theorem ReframeRoutingFromConfig_needs_Endpoint_witness:
  "ReframeRoutingFromConfig Inr id id (conf_of ''reframe'' [(''Priority'', VInt 1)]) =
     (Inl (ParamNeededError ''Endpoint'' ''reframe'')
        :: string error + (unit, unit, string, string) Routing) \<and>
   ReframeRoutingFromConfig Inr id id (conf_of ''reframe'' [(''Endpoint'', VInt 1)]) =
     (Inl (ParamNeededError ''Endpoint'' ''reframe'')
        :: string error + (unit, unit, string, string) Routing) \<and>
   ReframeRoutingFromConfig Inr id id
       (conf_of ''reframe'' [(''Endpoint'', VString ''http://127.0.0.1:7800'')]) =
     (Inr (reframeRoutingWrapper ''http://127.0.0.1:7800'' ''http://127.0.0.1:7800'')
        :: string error + (unit, unit, string, string) Routing)"
  using ReframeRoutingFromConfig_needs_Endpoint
          [where conf = "conf_of ''reframe'' [(''Priority'', VInt 1)]"
             and newDR = "Inr :: string \<Rightarrow> string + string" and newC = id and newCRC = id
             and ?'dht = unit and ?'frt = unit
             and addr = "''''"]
        ReframeRoutingFromConfig_needs_Endpoint
          [where conf = "conf_of ''reframe'' [(''Endpoint'', VInt 1)]"
             and newDR = "Inr :: string \<Rightarrow> string + string" and newC = id and newCRC = id
             and ?'dht = unit and ?'frt = unit
             and addr = "''''"]
        ReframeRoutingFromConfig_needs_Endpoint
          [where conf = "conf_of ''reframe'' [(''Endpoint'', VString ''http://127.0.0.1:7800'')]"
             and newDR = "Inr :: string \<Rightarrow> string + string" and newC = id and newCRC = id
             and ?'dht = unit and ?'frt = unit
             and addr = "''http://127.0.0.1:7800''"]
  by (simp add: conf_of_def NewParamNeededErr_def Let_def)

section \<open>Tiered router\<close>

lemma ProvideMany_loop_collects:
  "ProvideMany_loop asProvideMany rs pms =
     pms @ map (\<lambda>r. the (asProvideMany r)) (filter (\<lambda>r. asProvideMany r \<noteq> None) rs)"
  by (induction rs arbitrary: pms) (auto split: option.splits)

text \<open>
  Claim C6. \<open>ProvideMany\<close> returns the nil sentinel exactly when none of the tiered router's
  backends passes the batch-provide type test. Otherwise it returns a wrapper whose member
  list is what the type test yields for the backends that pass it, in the backends' order.
\<close>

theorem ProvideMany_nil_iff_no_batch_backend:
  "(ProvideMany asProvideMany ds = None) =
     (length (filter (\<lambda>r. asProvideMany r \<noteq> None) (Routers ds)) = 0) \<and>
   ProvideMany asProvideMany ds =
     (if filter (\<lambda>r. asProvideMany r \<noteq> None) (Routers ds) = [] then None
      else Some (ProvideManyWrapper
                   (map (\<lambda>r. the (asProvideMany r))
                      (filter (\<lambda>r. asProvideMany r \<noteq> None) (Routers ds)))))"
proof -
  let ?capable = "filter (\<lambda>r. asProvideMany r \<noteq> None) (Routers ds)"
  have collected: "ProvideMany_loop asProvideMany (Routers ds) [] =
                     map (\<lambda>r. the (asProvideMany r)) ?capable"
    by (simp add: ProvideMany_loop_collects)
  have "ProvideMany asProvideMany ds =
          (if ?capable = [] then None
           else Some (ProvideManyWrapper (map (\<lambda>r. the (asProvideMany r)) ?capable)))"
    by (simp add: ProvideMany_def collected)
  then show ?thesis by simp
qed

section \<open>DHT construction\<close>

lemma createDHT_Some:
  "createDHT dht_New (Some ps) mode =
     (case dht_New (Context ps) (Host ps)
             [dht_Concurrency 10, dht_Mode mode, dht_Datastore (Datastore ps),
              dht_Validator (Validator ps), dht_BootstrapPeers (BootstrapPeers ps)] of
        Inl err \<Rightarrow> Inl (LibraryError err)
      | Inr d \<Rightarrow> Inr (IpfsDHT d))"
  by (simp add: createDHT_def)

lemma createDHT_not_FullRT: "createDHT dht_New params mode \<noteq> Inr (FullRT f)"
  by (simp add: createDHT_def split: option.splits sum.splits)

lemma createFullRT_not_InvalidValueError:
  "createFullRT fullrt_NewFullRT prefix params \<noteq> Inl (InvalidValueError p v vs)"
  by (simp add: createFullRT_def split: option.splits sum.splits)

lemma DHT_full:
  "Parameters conf RouterParamTrackFullNetworkDHT = Some (VBool True) \<Longrightarrow>
   DHTRoutingFromConfig dht_New fullrt_NewFullRT prefix conf params =
     createFullRT fullrt_NewFullRT prefix params"
  by (simp add: DHTRoutingFromConfig_def Bool_def)

lemma DHT_sparse:
  "Parameters conf RouterParamTrackFullNetworkDHT \<noteq> Some (VBool True) \<Longrightarrow>
   DHTRoutingFromConfig dht_New fullrt_NewFullRT prefix conf params =
     (let dhtTP = fst (String (Parameters conf) RouterParamDHTType)
      in if dhtTP = ''dht'' then createDHT dht_New params ModeAuto
         else if dhtTP = ''dhtclient'' then createDHT dht_New params ModeClient
         else if dhtTP = ''dhtserver'' then createDHT dht_New params ModeServer
         else if dhtTP = ''none'' then Inr Null
         else Inl (InvalidValueError ''Mode'' dhtTP
                     [''dht'', ''dhtserver'', ''dhtclient'', ''none'']))"
proof -
  assume "Parameters conf RouterParamTrackFullNetworkDHT \<noteq> Some (VBool True)"
  then have "\<not> (fst (Bool (Parameters conf) RouterParamTrackFullNetworkDHT) \<and>
              snd (Bool (Parameters conf) RouterParamTrackFullNetworkDHT))"
    by (auto simp: Bool_def split: option.splits iface_value.splits)
  then show ?thesis
    by (auto simp: DHTRoutingFromConfig_def case_prod_beta Let_def mode_values
          RouterParamDHTType_def)
qed

lemma DHT_sparse_not_FullRT:
  "Parameters conf RouterParamTrackFullNetworkDHT \<noteq> Some (VBool True) \<Longrightarrow>
   DHTRoutingFromConfig dht_New fullrt_NewFullRT prefix conf params \<noteq> Inr (FullRT f)"
  by (simp add: DHT_sparse Let_def createDHT_not_FullRT)

text \<open>
  Claim C2, as stated, fails: with \<open>TrackFullNetworkDHT\<close> set to the bool \<open>true\<close> the
  \<open>Mode\<close> parameter is not looked at. A configuration with an invalid \<open>Mode\<close> then builds
  the full-routing-table router instead of failing, and one with \<open>Mode\<close> \<open>none\<close> builds it
  too instead of the null router.
\<close>

theorem DHTRoutingFromConfig_Mode_ignored_counterexample:
  "(DHTRoutingFromConfig ok_dht_New ok_NewFullRT ''/ipfs''
      (conf_of ''dht'' [(''TrackFullNetworkDHT'', VBool True), (''Mode'', VString ''bogus'')])
      (Some sample_params) :: string error + (nat, nat, unit, unit) Routing) = Inr (FullRT 2) \<and>
   (DHTRoutingFromConfig ok_dht_New ok_NewFullRT ''/ipfs''
      (conf_of ''dht'' [(''TrackFullNetworkDHT'', VBool True), (''Mode'', VString ''bogus'')])
      (Some sample_params) :: string error + (nat, nat, unit, unit) Routing) \<noteq>
     Inl (InvalidValueError ''Mode'' ''bogus'' [''dht'', ''dhtserver'', ''dhtclient'', ''none'']) \<and>
   (DHTRoutingFromConfig ok_dht_New ok_NewFullRT ''/ipfs''
      (conf_of ''dht'' [(''TrackFullNetworkDHT'', VBool True), (''Mode'', VString ''none'')])
      (Some sample_params) :: string error + (nat, nat, unit, unit) Routing) = Inr (FullRT 2) \<and>
   (DHTRoutingFromConfig ok_dht_New ok_NewFullRT ''/ipfs''
      (conf_of ''dht'' [(''TrackFullNetworkDHT'', VBool True), (''Mode'', VString ''none'')])
      (Some sample_params) :: string error + (nat, nat, unit, unit) Routing) \<noteq> Inr Null"
  by (simp add: DHTRoutingFromConfig_def Bool_def param_names conf_of_def createFullRT_def
        ok_NewFullRT_def)

text \<open>
  Claim C2, amended. For every dht-type router configuration in which
  \<open>TrackFullNetworkDHT\<close> is not the bool \<open>true\<close>, construction reads \<open>Mode\<close> against
  \<open>dht\<close> (auto), \<open>dhtclient\<close>, \<open>dhtserver\<close> and \<open>none\<close>: \<open>none\<close> returns the null router and
  no error, the three others return what \<open>createDHT\<close> builds in the matching mode (the
  library constructor called with that mode among its options), and every other string
  fails with an \<open>InvalidValueError\<close> holding the parameter name \<open>Mode\<close>, that string and the
  list of the four accepted values.
\<close>

theorem DHTRoutingFromConfig_Mode_when_not_full:
  assumes "Parameters conf ''TrackFullNetworkDHT'' \<noteq> Some (VBool True)"
  shows
  "(let result = (DHTRoutingFromConfig dht_New fullrt_NewFullRT prefix conf params
                    :: 'x error + ('dht, 'frt, 'c, 'crc) Routing)
    in (Parameters conf ''Mode'' = Some (VString ''none'') \<longrightarrow> result = Inr Null) \<and>
       (Parameters conf ''Mode'' = Some (VString ''dht'') \<longrightarrow>
          result = createDHT dht_New params ModeAuto) \<and>
       (Parameters conf ''Mode'' = Some (VString ''dhtclient'') \<longrightarrow>
          result = createDHT dht_New params ModeClient) \<and>
       (Parameters conf ''Mode'' = Some (VString ''dhtserver'') \<longrightarrow>
          result = createDHT dht_New params ModeServer) \<and>
       (Parameters conf ''Mode'' = Some (VString m) \<and>
        m \<notin> {''dht'', ''dhtclient'', ''dhtserver'', ''none''} \<longrightarrow>
          result = Inl (InvalidValueError ''Mode'' m
                          [''dht'', ''dhtserver'', ''dhtclient'', ''none'']))) \<and>
   (createDHT dht_New (Some ps) mode :: 'x error + ('dht, 'frt, 'c, 'crc) Routing) =
     (case dht_New (Context ps) (Host ps)
             [dht_Concurrency 10, dht_Mode mode, dht_Datastore (Datastore ps),
              dht_Validator (Validator ps), dht_BootstrapPeers (BootstrapPeers ps)] of
        Inl err \<Rightarrow> Inl (LibraryError err)
      | Inr d \<Rightarrow> Inr (IpfsDHT d))"
proof -
  from assms have tf: "Parameters conf RouterParamTrackFullNetworkDHT \<noteq> Some (VBool True)"
    by (simp add: RouterParamTrackFullNetworkDHT_def)
  have mode: "fst (String (Parameters conf) RouterParamDHTType) = s"
    if "Parameters conf ''Mode'' = Some (VString s)" for s
    using that by (simp add: String_def RouterParamDHTType_def)
  show ?thesis
    unfolding Let_def DHT_sparse[OF tf]
    by (auto simp: mode createDHT_Some)
qed

theorem DHTRoutingFromConfig_Mode_when_not_full_witness:
  "(DHTRoutingFromConfig ok_dht_New ok_NewFullRT ''/ipfs''
      (conf_of ''dht'' [(''Mode'', VString ''bogus'')]) (Some sample_params)
      :: string error + (nat, nat, unit, unit) Routing) =
     Inl (InvalidValueError ''Mode'' ''bogus'' [''dht'', ''dhtserver'', ''dhtclient'', ''none'']) \<and>
   (DHTRoutingFromConfig ok_dht_New ok_NewFullRT ''/ipfs''
      (conf_of ''dht'' [(''TrackFullNetworkDHT'', VBool False), (''Mode'', VString ''none'')])
      (Some sample_params) :: string error + (nat, nat, unit, unit) Routing) = Inr Null \<and>
   (DHTRoutingFromConfig ok_dht_New ok_NewFullRT ''/ipfs''
      (conf_of ''dht'' [(''Mode'', VString ''dhtserver'')]) (Some sample_params)
      :: string error + (nat, nat, unit, unit) Routing) = Inr (IpfsDHT 1)"
  using DHTRoutingFromConfig_Mode_when_not_full
          [where conf = "conf_of ''dht'' [(''Mode'', VString ''bogus'')]"
             and m = "''bogus''" and dht_New = ok_dht_New and fullrt_NewFullRT = ok_NewFullRT
             and prefix = "''/ipfs''" and params = "Some sample_params" and ps = sample_params
             and mode = ModeServer and ?'c = unit and ?'crc = unit]
        DHTRoutingFromConfig_Mode_when_not_full
          [where conf = "conf_of ''dht''
                           [(''TrackFullNetworkDHT'', VBool False), (''Mode'', VString ''none'')]"
             and m = "''bogus''" and dht_New = ok_dht_New and fullrt_NewFullRT = ok_NewFullRT
             and prefix = "''/ipfs''" and params = "Some sample_params" and ps = sample_params
             and mode = ModeServer and ?'c = unit and ?'crc = unit]
        DHTRoutingFromConfig_Mode_when_not_full
          [where conf = "conf_of ''dht'' [(''Mode'', VString ''dhtserver'')]"
             and m = "''bogus''" and dht_New = ok_dht_New and fullrt_NewFullRT = ok_NewFullRT
             and prefix = "''/ipfs''" and params = "Some sample_params" and ps = sample_params
             and mode = ModeServer and ?'c = unit and ?'crc = unit]
  by (simp add: conf_of_def Let_def ok_dht_New_def)

text \<open>
  Claim C10. When \<open>TrackFullNetworkDHT\<close> is the bool \<open>true\<close>, construction is the call of
  \<open>createFullRT\<close>: the result is never an \<open>InvalidValueError\<close>, and it is the same whatever
  stands under \<open>Mode\<close> (a valid value, an invalid one, nothing) and whatever the sparse DHT
  constructor is. In every other case (the key is missing, it holds \<open>false\<close>, or it holds a
  value that is not a bool) the full-routing-table router is never the result, the
  full-routing-table constructor has no part in it, the result is the one for the same
  configuration without the key, and an invalid \<open>Mode\<close> string is reported as such.
\<close>

theorem DHTRoutingFromConfig_full_iff_TrackFullNetworkDHT_true:
  "(let result = (DHTRoutingFromConfig dht_New fullrt_NewFullRT prefix conf params
                    :: 'x error + ('dht, 'frt, 'c, 'crc) Routing)
    in (Parameters conf ''TrackFullNetworkDHT'' = Some (VBool True) \<longrightarrow>
          result = createFullRT fullrt_NewFullRT prefix params \<and>
          (\<forall>p v vs. result \<noteq> Inl (InvalidValueError p v vs)) \<and>
          (\<forall>mode dht_New'.
             result =
               DHTRoutingFromConfig dht_New' fullrt_NewFullRT prefix
                 (conf\<lparr>Parameters := (Parameters conf)(''Mode'' := mode)\<rparr>) params)) \<and>
       (Parameters conf ''TrackFullNetworkDHT'' \<noteq> Some (VBool True) \<longrightarrow>
          (\<forall>f. result \<noteq> Inr (FullRT f)) \<and>
          (\<forall>fullrt_NewFullRT' prefix'.
             result =
               DHTRoutingFromConfig dht_New fullrt_NewFullRT' (prefix' :: 'pre)
                 (conf\<lparr>Parameters := (Parameters conf)(''TrackFullNetworkDHT'' := None)\<rparr>)
                 params) \<and>
          (Parameters conf ''Mode'' = Some (VString m) \<and>
           m \<notin> {''dht'', ''dhtclient'', ''dhtserver'', ''none''} \<longrightarrow>
             result = Inl (InvalidValueError ''Mode'' m
                             [''dht'', ''dhtserver'', ''dhtclient'', ''none'']))))"
proof -
  let ?tf = RouterParamTrackFullNetworkDHT
  have full:
    "(DHTRoutingFromConfig dht_New fullrt_NewFullRT prefix conf params
        :: 'x error + ('dht, 'frt, 'c, 'crc) Routing) =
       createFullRT fullrt_NewFullRT prefix params \<and>
     (\<forall>p v vs. (DHTRoutingFromConfig dht_New fullrt_NewFullRT prefix conf params
        :: 'x error + ('dht, 'frt, 'c, 'crc) Routing) \<noteq> Inl (InvalidValueError p v vs)) \<and>
     (\<forall>mode dht_New'.
        (DHTRoutingFromConfig dht_New fullrt_NewFullRT prefix conf params
           :: 'x error + ('dht, 'frt, 'c, 'crc) Routing) =
          DHTRoutingFromConfig dht_New' fullrt_NewFullRT prefix
            (conf\<lparr>Parameters := (Parameters conf)(''Mode'' := mode)\<rparr>) params)"
    if t: "Parameters conf ''TrackFullNetworkDHT'' = Some (VBool True)"
  proof -
    from t have a: "Parameters conf ?tf = Some (VBool True)"
      by (simp add: RouterParamTrackFullNetworkDHT_def)
    have b: "Parameters (conf\<lparr>Parameters := (Parameters conf)(''Mode'' := mode)\<rparr>) ?tf =
               Some (VBool True)" for mode
      using t by (simp add: RouterParamTrackFullNetworkDHT_def)
    show ?thesis
      by (simp add: DHT_full[OF a] DHT_full[OF b] createFullRT_not_InvalidValueError)
  qed
  have sparse:
    "(\<forall>f. (DHTRoutingFromConfig dht_New fullrt_NewFullRT prefix conf params
        :: 'x error + ('dht, 'frt, 'c, 'crc) Routing) \<noteq> Inr (FullRT f)) \<and>
     (\<forall>fullrt_NewFullRT' prefix'.
        (DHTRoutingFromConfig dht_New fullrt_NewFullRT prefix conf params
           :: 'x error + ('dht, 'frt, 'c, 'crc) Routing) =
          DHTRoutingFromConfig dht_New fullrt_NewFullRT' (prefix' :: 'pre)
            (conf\<lparr>Parameters := (Parameters conf)(''TrackFullNetworkDHT'' := None)\<rparr>)
            params) \<and>
     (Parameters conf ''Mode'' = Some (VString m) \<and>
      m \<notin> {''dht'', ''dhtclient'', ''dhtserver'', ''none''} \<longrightarrow>
        (DHTRoutingFromConfig dht_New fullrt_NewFullRT prefix conf params
           :: 'x error + ('dht, 'frt, 'c, 'crc) Routing) =
          Inl (InvalidValueError ''Mode'' m [''dht'', ''dhtserver'', ''dhtclient'', ''none'']))"
    if t: "Parameters conf ''TrackFullNetworkDHT'' \<noteq> Some (VBool True)"
  proof -
    from t have a: "Parameters conf ?tf \<noteq> Some (VBool True)"
      by (simp add: RouterParamTrackFullNetworkDHT_def)
    have b: "Parameters
               (conf\<lparr>Parameters := (Parameters conf)(''TrackFullNetworkDHT'' := None)\<rparr>) ?tf \<noteq>
             Some (VBool True)"
      by (simp add: RouterParamTrackFullNetworkDHT_def)
    have c: "String ((Parameters conf)(''TrackFullNetworkDHT'' := None)) RouterParamDHTType =
             String (Parameters conf) RouterParamDHTType"
      by (simp add: String_def RouterParamDHTType_def)
    have d: "fst (String (Parameters conf) RouterParamDHTType) = m"
      if "Parameters conf ''Mode'' = Some (VString m)"
      using that by (simp add: String_def RouterParamDHTType_def)
    show ?thesis
      using d by (auto simp: DHT_sparse[OF a] DHT_sparse[OF b] c Let_def createDHT_not_FullRT)
  qed
  show ?thesis
    unfolding Let_def using full sparse by blast
qed

theorem DHTRoutingFromConfig_full_iff_TrackFullNetworkDHT_true_witness:
  "(DHTRoutingFromConfig ok_dht_New ok_NewFullRT ''/ipfs''
      (conf_of ''dht'' [(''TrackFullNetworkDHT'', VBool True), (''Mode'', VString ''bogus'')])
      (Some sample_params) :: string error + (nat, nat, unit, unit) Routing) =
     createFullRT ok_NewFullRT ''/ipfs'' (Some sample_params) \<and>
   (DHTRoutingFromConfig ok_dht_New ok_NewFullRT ''/ipfs''
      (conf_of ''dht'' [(''TrackFullNetworkDHT'', VString ''true''), (''Mode'', VString ''bogus'')])
      (Some sample_params) :: string error + (nat, nat, unit, unit) Routing) =
     Inl (InvalidValueError ''Mode'' ''bogus'' [''dht'', ''dhtserver'', ''dhtclient'', ''none'']) \<and>
   (DHTRoutingFromConfig ok_dht_New ok_NewFullRT ''/ipfs''
      (conf_of ''dht'' [(''TrackFullNetworkDHT'', VBool False), (''Mode'', VString ''bogus'')])
      (Some sample_params) :: string error + (nat, nat, unit, unit) Routing) =
     Inl (InvalidValueError ''Mode'' ''bogus'' [''dht'', ''dhtserver'', ''dhtclient'', ''none''])"
  using DHTRoutingFromConfig_full_iff_TrackFullNetworkDHT_true
          [where conf = "conf_of ''dht''
                           [(''TrackFullNetworkDHT'', VBool True), (''Mode'', VString ''bogus'')]"
             and m = "''bogus''" and dht_New = ok_dht_New and fullrt_NewFullRT = ok_NewFullRT
             and prefix = "''/ipfs''" and params = "Some sample_params"
             and ?'c = unit and ?'crc = unit and ?'pre = string]
        DHTRoutingFromConfig_full_iff_TrackFullNetworkDHT_true
          [where conf = "conf_of ''dht''
                           [(''TrackFullNetworkDHT'', VString ''true''),
                            (''Mode'', VString ''bogus'')]"
             and m = "''bogus''" and dht_New = ok_dht_New and fullrt_NewFullRT = ok_NewFullRT
             and prefix = "''/ipfs''" and params = "Some sample_params"
             and ?'c = unit and ?'crc = unit and ?'pre = string]
        DHTRoutingFromConfig_full_iff_TrackFullNetworkDHT_true
          [where conf = "conf_of ''dht''
                           [(''TrackFullNetworkDHT'', VBool False), (''Mode'', VString ''bogus'')]"
             and m = "''bogus''" and dht_New = ok_dht_New and fullrt_NewFullRT = ok_NewFullRT
             and prefix = "''/ipfs''" and params = "Some sample_params"
             and ?'c = unit and ?'crc = unit and ?'pre = string]
  by (simp add: conf_of_def Let_def)

section \<open>Tolerant reads\<close>

lemma GetPriority_mistyped:
  assumes "\<forall>n. v \<noteq> VInt n"
  shows "GetPriority (rp(RouterParamPriority \<mapsto> v)) = defaultPriority"
    and "GetPriority (rp(RouterParamPriority := None)) = defaultPriority"
  using assms by (simp_all add: GetPriority_default)

lemma DHT_reads:
  assumes "Bool (Parameters c1) RouterParamTrackFullNetworkDHT =
           Bool (Parameters c2) RouterParamTrackFullNetworkDHT"
    and "String (Parameters c1) RouterParamDHTType = String (Parameters c2) RouterParamDHTType"
  shows "DHTRoutingFromConfig dht_New fullrt_NewFullRT prefix c1 params =
         DHTRoutingFromConfig dht_New fullrt_NewFullRT prefix c2 params"
  by (simp only: DHTRoutingFromConfig_def assms)

lemma Reframe_reads:
  assumes "String (Parameters c1) RouterParamEndpoint = String (Parameters c2) RouterParamEndpoint"
    and "Type c1 = Type c2"
  shows "ReframeRoutingFromConfig newDR newC newCRC c1 =
         ReframeRoutingFromConfig newDR newC newCRC c2"
  by (simp only: ReframeRoutingFromConfig_def assms)

lemma DHT_TrackFull_mistyped:
  assumes "\<forall>b. v \<noteq> VBool b"
  shows "DHTRoutingFromConfig dht_New fullrt_NewFullRT prefix
           (conf\<lparr>Parameters := rp(RouterParamTrackFullNetworkDHT \<mapsto> v)\<rparr>) params =
         DHTRoutingFromConfig dht_New fullrt_NewFullRT prefix
           (conf\<lparr>Parameters := rp(RouterParamTrackFullNetworkDHT := None)\<rparr>) params"
proof (rule DHT_reads)
  show "Bool (Parameters (conf\<lparr>Parameters := rp(RouterParamTrackFullNetworkDHT \<mapsto> v)\<rparr>))
          RouterParamTrackFullNetworkDHT =
        Bool (Parameters (conf\<lparr>Parameters := rp(RouterParamTrackFullNetworkDHT := None)\<rparr>))
          RouterParamTrackFullNetworkDHT"
    using assms by (simp add: Bool_mistyped Bool_absent)
  show "String (Parameters (conf\<lparr>Parameters := rp(RouterParamTrackFullNetworkDHT \<mapsto> v)\<rparr>))
          RouterParamDHTType =
        String (Parameters (conf\<lparr>Parameters := rp(RouterParamTrackFullNetworkDHT := None)\<rparr>))
          RouterParamDHTType"
    by (simp add: String_def param_names)
qed

lemma DHT_Mode_mistyped:
  assumes "\<forall>s. v \<noteq> VString s"
  shows "DHTRoutingFromConfig dht_New fullrt_NewFullRT prefix
           (conf\<lparr>Parameters := rp(RouterParamDHTType \<mapsto> v)\<rparr>) params =
         DHTRoutingFromConfig dht_New fullrt_NewFullRT prefix
           (conf\<lparr>Parameters := rp(RouterParamDHTType := None)\<rparr>) params"
proof (rule DHT_reads)
  show "Bool (Parameters (conf\<lparr>Parameters := rp(RouterParamDHTType \<mapsto> v)\<rparr>))
          RouterParamTrackFullNetworkDHT =
        Bool (Parameters (conf\<lparr>Parameters := rp(RouterParamDHTType := None)\<rparr>))
          RouterParamTrackFullNetworkDHT"
    by (simp add: Bool_def param_names)
  show "String (Parameters (conf\<lparr>Parameters := rp(RouterParamDHTType \<mapsto> v)\<rparr>))
          RouterParamDHTType =
        String (Parameters (conf\<lparr>Parameters := rp(RouterParamDHTType := None)\<rparr>))
          RouterParamDHTType"
    using assms by (simp add: String_mistyped String_absent)
qed

lemma Reframe_Endpoint_mistyped:
  assumes "\<forall>s. v \<noteq> VString s"
  shows "ReframeRoutingFromConfig newDR newC newCRC
           (conf\<lparr>Parameters := rp(RouterParamEndpoint \<mapsto> v)\<rparr>) =
         ReframeRoutingFromConfig newDR newC newCRC
           (conf\<lparr>Parameters := rp(RouterParamEndpoint := None)\<rparr>)"
proof (rule Reframe_reads)
  show "String (Parameters (conf\<lparr>Parameters := rp(RouterParamEndpoint \<mapsto> v)\<rparr>))
          RouterParamEndpoint =
        String (Parameters (conf\<lparr>Parameters := rp(RouterParamEndpoint := None)\<rparr>))
          RouterParamEndpoint"
    using assms by (simp add: String_mistyped String_absent)
  show "Type (conf\<lparr>Parameters := rp(RouterParamEndpoint \<mapsto> v)\<rparr>) =
        Type (conf\<lparr>Parameters := rp(RouterParamEndpoint := None)\<rparr>)"
    by simp
qed

lemma DHT_TrackFull_mistyped_by_Mode:
  assumes "\<forall>b. v \<noteq> VBool b" and "rp RouterParamDHTType = Some (VString m)"
  shows "DHTRoutingFromConfig dht_New fullrt_NewFullRT prefix
           (conf\<lparr>Parameters := rp(RouterParamTrackFullNetworkDHT \<mapsto> v)\<rparr>) params =
         (if m = ''dht'' then createDHT dht_New params ModeAuto
          else if m = ''dhtclient'' then createDHT dht_New params ModeClient
          else if m = ''dhtserver'' then createDHT dht_New params ModeServer
          else if m = ''none'' then Inr Null
          else Inl (InvalidValueError ''Mode'' m [''dht'', ''dhtserver'', ''dhtclient'', ''none'']))"
proof -
  let ?conf = "conf\<lparr>Parameters := rp(RouterParamTrackFullNetworkDHT \<mapsto> v)\<rparr>"
  have tf: "Parameters ?conf RouterParamTrackFullNetworkDHT \<noteq> Some (VBool True)"
    using assms(1) by simp
  have "fst (String (Parameters ?conf) RouterParamDHTType) = m"
    using assms(2) by (simp add: String_def param_names)
  then show ?thesis
    by (simp add: DHT_sparse[OF tf] Let_def)
qed

lemma DHT_Mode_mistyped_aborts:
  assumes "\<forall>s. v \<noteq> VString s" and "rp RouterParamTrackFullNetworkDHT \<noteq> Some (VBool True)"
  shows "DHTRoutingFromConfig dht_New fullrt_NewFullRT prefix
           (conf\<lparr>Parameters := rp(RouterParamDHTType \<mapsto> v)\<rparr>) params =
         Inl (InvalidValueError ''Mode'' '''' [''dht'', ''dhtserver'', ''dhtclient'', ''none''])"
proof -
  let ?conf = "conf\<lparr>Parameters := rp(RouterParamDHTType \<mapsto> v)\<rparr>"
  have tf: "Parameters ?conf RouterParamTrackFullNetworkDHT \<noteq> Some (VBool True)"
    using assms(2) by (simp add: param_names)
  have "String (Parameters ?conf) RouterParamDHTType = ('''', False)"
    using assms(1) by (simp add: String_mistyped)
  then show ?thesis
    by (simp add: DHT_sparse[OF tf] Let_def)
qed

lemma Reframe_Endpoint_mistyped_aborts:
  assumes "\<forall>s. v \<noteq> VString s"
  shows "ReframeRoutingFromConfig newDR newC newCRC
           (conf\<lparr>Parameters := rp(RouterParamEndpoint \<mapsto> v)\<rparr>) =
         Inl (NewParamNeededErr RouterParamEndpoint (Type conf))"
proof -
  have "\<forall>s. Parameters (conf\<lparr>Parameters := rp(RouterParamEndpoint \<mapsto> v)\<rparr>)
              RouterParamEndpoint \<noteq> Some (VString s)"
    using assms by simp
  from Reframe_missing[OF this] show ?thesis by simp
qed

text \<open>
  Claim C3, as stated, fails in its last part: a value of the wrong type does not always
  leave construction going with a default. An integer under \<open>Mode\<close> is read as the empty
  string, which is none of the accepted modes, and DHT construction fails.
\<close>

theorem mistyped_Mode_aborts_construction_counterexample:
  "Parameters (conf_of ''dht'' [(''Mode'', VInt 5)]) ''Mode'' = Some (VInt 5) \<and>
   String (Parameters (conf_of ''dht'' [(''Mode'', VInt 5)])) ''Mode'' = ('''', False) \<and>
   (DHTRoutingFromConfig ok_dht_New ok_NewFullRT ''/ipfs''
      (conf_of ''dht'' [(''Mode'', VInt 5)]) (Some sample_params)
      :: string error + (nat, nat, unit, unit) Routing) =
     Inl (InvalidValueError ''Mode'' '''' [''dht'', ''dhtserver'', ''dhtclient'', ''none''])"
  by (simp add: conf_of_def DHTRoutingFromConfig_def Bool_def String_def param_names
        mode_values)

text \<open>
  Claim C3, amended. Each of the four accessors returns the zero value of its type and
  \<open>False\<close> when the key is missing and when the key holds a value of another type; being
  total functions of the map and the key, they have no other outcome. In the constructors
  a value of the wrong type under a key gives the result that the configuration without
  the key gives. For \<open>Priority\<close> that is the default priority 100000, and for
  \<open>TrackFullNetworkDHT\<close> it is the construction by \<open>Mode\<close> (the null router for \<open>none\<close>, a
  DHT in the matching mode for the three others): these two degrade to their defaults and
  construction goes on. A wrong-typed \<open>Mode\<close>, like a missing one, makes DHT construction
  fail with an \<open>InvalidValueError\<close> holding the empty string (unless
  \<open>TrackFullNetworkDHT\<close> is the bool \<open>true\<close>), and a wrong-typed \<open>Endpoint\<close>, like a missing
  one, makes the delegated router's construction fail with the missing-parameter error.
\<close>

theorem accessors_mistyped_as_absent:
  "(rp key = None \<longrightarrow>
      String rp key = ('''', False) \<and> Number rp key = (0, False) \<and>
      StringSlice rp key = ([], False) \<and> Bool rp key = (False, False)) \<and>
   (rp key = Some v \<and> (\<forall>s. v \<noteq> VString s) \<longrightarrow> String rp key = ('''', False)) \<and>
   (rp key = Some v \<and> (\<forall>n. v \<noteq> VInt n) \<longrightarrow> Number rp key = (0, False)) \<and>
   (rp key = Some v \<and> (\<forall>ss. v \<noteq> VStringSlice ss) \<longrightarrow> StringSlice rp key = ([], False)) \<and>
   (rp key = Some v \<and> (\<forall>b. v \<noteq> VBool b) \<longrightarrow> Bool rp key = (False, False)) \<and>
   ((\<forall>n. v \<noteq> VInt n) \<longrightarrow>
      GetPriority (rp(''Priority'' \<mapsto> v)) = GetPriority (rp(''Priority'' := None)) \<and>
      GetPriority (rp(''Priority'' \<mapsto> v)) = 100000) \<and>
   ((\<forall>b. v \<noteq> VBool b) \<longrightarrow>
      (DHTRoutingFromConfig dht_New fullrt_NewFullRT prefix
         (conf\<lparr>Parameters := rp(''TrackFullNetworkDHT'' \<mapsto> v)\<rparr>) params
         :: 'x error + ('dht, 'frt, 'c, 'crc) Routing) =
       DHTRoutingFromConfig dht_New fullrt_NewFullRT prefix
         (conf\<lparr>Parameters := rp(''TrackFullNetworkDHT'' := None)\<rparr>) params) \<and>
   ((\<forall>b. v \<noteq> VBool b) \<and> rp ''Mode'' = Some (VString m) \<longrightarrow>
      (DHTRoutingFromConfig dht_New fullrt_NewFullRT prefix
         (conf\<lparr>Parameters := rp(''TrackFullNetworkDHT'' \<mapsto> v)\<rparr>) params
         :: 'x error + ('dht, 'frt, 'c, 'crc) Routing) =
       (if m = ''dht'' then createDHT dht_New params ModeAuto
        else if m = ''dhtclient'' then createDHT dht_New params ModeClient
        else if m = ''dhtserver'' then createDHT dht_New params ModeServer
        else if m = ''none'' then Inr Null
        else Inl (InvalidValueError ''Mode'' m
                    [''dht'', ''dhtserver'', ''dhtclient'', ''none'']))) \<and>
   ((\<forall>s. v \<noteq> VString s) \<longrightarrow>
      (DHTRoutingFromConfig dht_New fullrt_NewFullRT prefix
         (conf\<lparr>Parameters := rp(''Mode'' \<mapsto> v)\<rparr>) params
         :: 'x error + ('dht, 'frt, 'c, 'crc) Routing) =
       DHTRoutingFromConfig dht_New fullrt_NewFullRT prefix
         (conf\<lparr>Parameters := rp(''Mode'' := None)\<rparr>) params \<and>
      (ReframeRoutingFromConfig newDR newC newCRC
         (conf\<lparr>Parameters := rp(''Endpoint'' \<mapsto> v)\<rparr>)
         :: 'x error + ('dht, 'frt, 'c, 'crc) Routing) =
       ReframeRoutingFromConfig newDR newC newCRC
         (conf\<lparr>Parameters := rp(''Endpoint'' := None)\<rparr>) \<and>
      (ReframeRoutingFromConfig newDR newC newCRC
         (conf\<lparr>Parameters := rp(''Endpoint'' \<mapsto> v)\<rparr>)
         :: 'x error + ('dht, 'frt, 'c, 'crc) Routing) =
       Inl (ParamNeededError ''Endpoint'' (Type conf))) \<and>
   ((\<forall>s. v \<noteq> VString s) \<and> rp ''TrackFullNetworkDHT'' \<noteq> Some (VBool True) \<longrightarrow>
      (DHTRoutingFromConfig dht_New fullrt_NewFullRT prefix
         (conf\<lparr>Parameters := rp(''Mode'' \<mapsto> v)\<rparr>) params
         :: 'x error + ('dht, 'frt, 'c, 'crc) Routing) =
       Inl (InvalidValueError ''Mode'' '''' [''dht'', ''dhtserver'', ''dhtclient'', ''none'']))"
proof (intro conjI impI)
  assume "rp key = None"
  then show "String rp key = ('''', False)" "Number rp key = (0, False)"
    "StringSlice rp key = ([], False)" "Bool rp key = (False, False)"
    by (simp_all add: String_absent Number_absent StringSlice_absent Bool_absent)
next
  assume "rp key = Some v \<and> (\<forall>s. v \<noteq> VString s)"
  then show "String rp key = ('''', False)" by (simp add: String_mistyped)
next
  assume "rp key = Some v \<and> (\<forall>n. v \<noteq> VInt n)"
  then show "Number rp key = (0, False)" by (simp add: Number_mistyped)
next
  assume "rp key = Some v \<and> (\<forall>ss. v \<noteq> VStringSlice ss)"
  then show "StringSlice rp key = ([], False)" by (simp add: StringSlice_mistyped)
next
  assume "rp key = Some v \<and> (\<forall>b. v \<noteq> VBool b)"
  then show "Bool rp key = (False, False)" by (simp add: Bool_mistyped)
next
  assume a: "\<forall>n. v \<noteq> VInt n"
  show "GetPriority (rp(''Priority'' \<mapsto> v)) = GetPriority (rp(''Priority'' := None))"
    using GetPriority_mistyped[OF a, of rp] by (simp add: RouterParamPriority_def)
  show "GetPriority (rp(''Priority'' \<mapsto> v)) = 100000"
    using GetPriority_mistyped(1)[OF a, of rp]
    by (simp add: RouterParamPriority_def defaultPriority_def)
next
  assume "\<forall>b. v \<noteq> VBool b"
  then show "(DHTRoutingFromConfig dht_New fullrt_NewFullRT prefix
         (conf\<lparr>Parameters := rp(''TrackFullNetworkDHT'' \<mapsto> v)\<rparr>) params
         :: 'x error + ('dht, 'frt, 'c, 'crc) Routing) =
       DHTRoutingFromConfig dht_New fullrt_NewFullRT prefix
         (conf\<lparr>Parameters := rp(''TrackFullNetworkDHT'' := None)\<rparr>) params"
    using DHT_TrackFull_mistyped[where v = v and conf = conf and rp = rp]
    by (simp add: RouterParamTrackFullNetworkDHT_def)
next
  assume "(\<forall>b. v \<noteq> VBool b) \<and> rp ''Mode'' = Some (VString m)"
  then show "(DHTRoutingFromConfig dht_New fullrt_NewFullRT prefix
         (conf\<lparr>Parameters := rp(''TrackFullNetworkDHT'' \<mapsto> v)\<rparr>) params
         :: 'x error + ('dht, 'frt, 'c, 'crc) Routing) =
       (if m = ''dht'' then createDHT dht_New params ModeAuto
        else if m = ''dhtclient'' then createDHT dht_New params ModeClient
        else if m = ''dhtserver'' then createDHT dht_New params ModeServer
        else if m = ''none'' then Inr Null
        else Inl (InvalidValueError ''Mode'' m
                    [''dht'', ''dhtserver'', ''dhtclient'', ''none'']))"
    using DHT_TrackFull_mistyped_by_Mode
            [where v = v and conf = conf and rp = rp and m = m and dht_New = dht_New
               and fullrt_NewFullRT = fullrt_NewFullRT and prefix = prefix and params = params]
    by (simp only: param_names) simp
next
  assume a: "\<forall>s. v \<noteq> VString s"
  show "(DHTRoutingFromConfig dht_New fullrt_NewFullRT prefix
         (conf\<lparr>Parameters := rp(''Mode'' \<mapsto> v)\<rparr>) params
         :: 'x error + ('dht, 'frt, 'c, 'crc) Routing) =
       DHTRoutingFromConfig dht_New fullrt_NewFullRT prefix
         (conf\<lparr>Parameters := rp(''Mode'' := None)\<rparr>) params"
    using DHT_Mode_mistyped[OF a, where conf = conf and rp = rp]
    by (simp add: RouterParamDHTType_def)
  show "(ReframeRoutingFromConfig newDR newC newCRC
         (conf\<lparr>Parameters := rp(''Endpoint'' \<mapsto> v)\<rparr>)
         :: 'x error + ('dht, 'frt, 'c, 'crc) Routing) =
       ReframeRoutingFromConfig newDR newC newCRC
         (conf\<lparr>Parameters := rp(''Endpoint'' := None)\<rparr>)"
    using Reframe_Endpoint_mistyped[OF a, where conf = conf and rp = rp]
    by (simp add: RouterParamEndpoint_def)
  show "(ReframeRoutingFromConfig newDR newC newCRC
         (conf\<lparr>Parameters := rp(''Endpoint'' \<mapsto> v)\<rparr>)
         :: 'x error + ('dht, 'frt, 'c, 'crc) Routing) =
       Inl (ParamNeededError ''Endpoint'' (Type conf))"
    using Reframe_Endpoint_mistyped_aborts[OF a, where conf = conf and rp = rp]
    by (simp add: RouterParamEndpoint_def NewParamNeededErr_def)
next
  assume "(\<forall>s. v \<noteq> VString s) \<and> rp ''TrackFullNetworkDHT'' \<noteq> Some (VBool True)"
  then show "(DHTRoutingFromConfig dht_New fullrt_NewFullRT prefix
         (conf\<lparr>Parameters := rp(''Mode'' \<mapsto> v)\<rparr>) params
         :: 'x error + ('dht, 'frt, 'c, 'crc) Routing) =
       Inl (InvalidValueError ''Mode'' '''' [''dht'', ''dhtserver'', ''dhtclient'', ''none''])"
    using DHT_Mode_mistyped_aborts
            [where v = v and conf = conf and rp = rp and dht_New = dht_New
               and fullrt_NewFullRT = fullrt_NewFullRT and prefix = prefix and params = params]
    by (simp only: param_names) simp
qed

theorem accessors_mistyped_as_absent_witness:
  "String Map.empty ''Mode'' = ('''', False) \<and>
   Number Map.empty ''Mode'' = (0, False) \<and>
   StringSlice Map.empty ''Mode'' = ([], False) \<and>
   Bool Map.empty ''Mode'' = (False, False) \<and>
   String [''Mode'' \<mapsto> VInt 5] ''Mode'' = ('''', False) \<and>
   Number [''Priority'' \<mapsto> VString ''1''] ''Priority'' = (0, False) \<and>
   StringSlice [''Priority'' \<mapsto> VString ''1''] ''Priority'' = ([], False) \<and>
   Bool [''Priority'' \<mapsto> VString ''1''] ''Priority'' = (False, False) \<and>
   GetPriority [''Priority'' \<mapsto> VString ''1''] = 100000 \<and>
   (DHTRoutingFromConfig ok_dht_New ok_NewFullRT ''/ipfs''
      (conf_of ''dht'' [(''TrackFullNetworkDHT'', VString ''1''), (''Mode'', VString ''none'')])
      (Some sample_params) :: string error + (nat, nat, string, string) Routing) = Inr Null \<and>
   (DHTRoutingFromConfig ok_dht_New ok_NewFullRT ''/ipfs''
      (conf_of ''dht'' [(''TrackFullNetworkDHT'', VString ''1''), (''Mode'', VString ''dht'')])
      (Some sample_params) :: string error + (nat, nat, string, string) Routing) =
     Inr (IpfsDHT 1) \<and>
   (DHTRoutingFromConfig ok_dht_New ok_NewFullRT ''/ipfs''
      (conf_of ''dht'' [(''Mode'', VInt 5)]) (Some sample_params)
      :: string error + (nat, nat, string, string) Routing) =
     Inl (InvalidValueError ''Mode'' '''' [''dht'', ''dhtserver'', ''dhtclient'', ''none'']) \<and>
   (ReframeRoutingFromConfig Inr id id (conf_of ''reframe'' [(''Endpoint'', VInt 5)])
      :: string error + (nat, nat, string, string) Routing) =
     Inl (ParamNeededError ''Endpoint'' ''reframe'')"
  using accessors_mistyped_as_absent
          [where rp = Map.empty and key = "''Mode''" and v = "VString ''1''"
             and m = "''none''" and conf = "conf_of ''dht'' []"
             and dht_New = ok_dht_New and fullrt_NewFullRT = ok_NewFullRT
             and prefix = "''/ipfs''" and params = "Some sample_params"
             and newDR = "Inr :: string \<Rightarrow> string + string"
             and newC = "id :: string \<Rightarrow> string" and newCRC = "id :: string \<Rightarrow> string"]
        accessors_mistyped_as_absent
          [where rp = "[''Mode'' \<mapsto> VInt 5]" and key = "''Mode''" and v = "VInt 5"
             and m = "''none''" and conf = "conf_of ''reframe'' []"
             and dht_New = ok_dht_New and fullrt_NewFullRT = ok_NewFullRT
             and prefix = "''/ipfs''" and params = "Some sample_params"
             and newDR = "Inr :: string \<Rightarrow> string + string"
             and newC = "id :: string \<Rightarrow> string" and newCRC = "id :: string \<Rightarrow> string"]
        accessors_mistyped_as_absent
          [where rp = "[''Priority'' \<mapsto> VString ''1'']" and key = "''Priority''"
             and v = "VString ''1''" and m = "''none''" and conf = "conf_of ''dht'' []"
             and dht_New = ok_dht_New and fullrt_NewFullRT = ok_NewFullRT
             and prefix = "''/ipfs''" and params = "Some sample_params"
             and newDR = "Inr :: string \<Rightarrow> string + string"
             and newC = "id :: string \<Rightarrow> string" and newCRC = "id :: string \<Rightarrow> string"]
        accessors_mistyped_as_absent
          [where rp = "[''Mode'' \<mapsto> VString ''none'']" and key = "''Mode''"
             and v = "VString ''1''" and m = "''none''" and conf = "conf_of ''dht'' []"
             and dht_New = ok_dht_New and fullrt_NewFullRT = ok_NewFullRT
             and prefix = "''/ipfs''" and params = "Some sample_params"
             and newDR = "Inr :: string \<Rightarrow> string + string"
             and newC = "id :: string \<Rightarrow> string" and newCRC = "id :: string \<Rightarrow> string"]
        accessors_mistyped_as_absent
          [where rp = "[''Mode'' \<mapsto> VString ''dht'']" and key = "''Mode''"
             and v = "VString ''1''" and m = "''dht''" and conf = "conf_of ''dht'' []"
             and dht_New = ok_dht_New and fullrt_NewFullRT = ok_NewFullRT
             and prefix = "''/ipfs''" and params = "Some sample_params"
             and newDR = "Inr :: string \<Rightarrow> string + string"
             and newC = "id :: string \<Rightarrow> string" and newCRC = "id :: string \<Rightarrow> string"]
  by (simp add: conf_of_def DHTRoutingFromConfig_def ReframeRoutingFromConfig_def
        NewParamNeededErr_def Bool_def String_def param_names mode_values createDHT_def
        sample_params_def ok_dht_New_def)

section \<open>Traces\<close>

lemma sleeps_append: "sleeps (xs @ ys) = sleeps xs @ sleeps ys"
  by (induction xs rule: sleeps.induct) simp_all

lemma delegate_calls_append:
  "delegate_calls (xs @ ys) = delegate_calls xs @ delegate_calls ys"
  by (simp add: delegate_calls_def)

lemma delegate_calls_single: "is_delegate_call e \<Longrightarrow> delegate_calls [e] = [e]"
  by (simp add: delegate_calls_def)

lemma rejects_length: "rejects call n d = Some (errs, d') \<Longrightarrow> length errs = n"
  by (induction n arbitrary: d errs) (auto split: prod.splits sum.splits option.splits)

lemma rejects_Suc:
  assumes "call d = (Inl err, d1)" and "rejects call n d1 = Some (errs, dn)"
  shows "rejects call (Suc n) d = Some (err # errs, dn)"
  using assms by simp

lemma rejects_SucE:
  assumes "rejects call (Suc n) d = Some (errs, dn)"
  obtains err d1 errs' where "call d = (Inl err, d1)"
    and "rejects call n d1 = Some (errs', dn)" and "errs = err # errs'"
  using assms by (auto split: prod.splits sum.splits option.splits)

lemma OpenConnection_rounds_sleeps:
  "sleeps (OpenConnection_rounds dir usefd endpoint c errs) = replicate (length errs) 1"
  by (induction errs) simp_all

lemma OpenConnection_rounds_calls:
  "delegate_calls (OpenConnection_rounds dir usefd endpoint c errs) =
     replicate (length errs) (DelegateOpenConnection dir usefd endpoint)"
  by (induction errs) (simp_all add: delegate_calls_def)

lemma OpenStream_rounds_sleeps:
  "sleeps (OpenStream_rounds p dir c errs) = replicate (length errs) 1"
  by (induction errs) simp_all

lemma OpenStream_rounds_calls:
  "delegate_calls (OpenStream_rounds p dir c errs) =
     replicate (length errs) (DelegateOpenStream p dir)"
  by (induction errs) (simp_all add: delegate_calls_def)

lemma BeginSpan_rounds_sleeps:
  "sleeps (BeginSpan_rounds c errs) = replicate (length errs) 1"
  by (induction errs arbitrary: c) simp_all

lemma BeginSpan_rounds_calls:
  "delegate_calls (BeginSpan_rounds c errs) = replicate (length errs) DelegateBeginSpan"
  by (induction errs arbitrary: c) (simp_all add: delegate_calls_def)

section \<open>The retry loops\<close>

lemma OpenConnection_loop_returns:
  assumes "rejects (\<lambda>d. dOpen d dir usefd endpoint) n (delegate bprm) = Some (errs, dn)"
    and "dOpen dn dir usefd endpoint = (Inr cms, d')"
  shows "OpenConnection_loop dOpen dir usefd endpoint (bprm, tr) =
     Some (Inr cms, bprm\<lparr>delegate := d', connCount := connCount bprm - 1\<rparr>,
           tr @ OpenConnection_rounds dir usefd endpoint (connCount bprm) errs
              @ [DelegateOpenConnection dir usefd endpoint])"
  using assms
proof (induction n arbitrary: bprm tr errs)
  case 0
  then show ?case by (subst OpenConnection_loop.simps) simp
next
  case (Suc n)
  from Suc.prems(1) obtain err d1 errs' where
    c: "dOpen (delegate bprm) dir usefd endpoint = (Inl err, d1)"
    and r: "rejects (\<lambda>d. dOpen d dir usefd endpoint) n d1 = Some (errs', dn)"
    and e: "errs = err # errs'"
    by (rule rejects_SucE)
  have "rejects (\<lambda>d. dOpen d dir usefd endpoint) n (delegate (bprm\<lparr>delegate := d1\<rparr>)) =
          Some (errs', dn)"
    using r by simp
  from Suc.IH[OF this Suc.prems(2)] c e show ?case
    by (subst OpenConnection_loop.simps) simp
qed

lemma OpenConnection_loop_only_if:
  assumes "OpenConnection_loop dOpen dir usefd endpoint st = Some y"
  shows "\<exists>n errs dn cms d'.
           rejects (\<lambda>d. dOpen d dir usefd endpoint) n (delegate (fst st)) = Some (errs, dn) \<and>
           dOpen dn dir usefd endpoint = (Inr cms, d')"
  using assms
proof (induction dOpen dir usefd endpoint st y
        rule: OpenConnection_loop.raw_induct[rotated 1, consumes 1, case_names step])
  case (step loop dOpen dir usefd endpoint st y)
  obtain bprm tr where st: "st = (bprm, tr)" by (cases st)
  obtain r d where c: "dOpen (delegate bprm) dir usefd endpoint = (r, d)"
    by (cases "dOpen (delegate bprm) dir usefd endpoint")
  show ?case
  proof (cases r)
    case (Inr cms)
    have "rejects (\<lambda>d. dOpen d dir usefd endpoint) 0 (delegate (fst st)) =
            Some ([], delegate bprm)"
      by (simp add: st)
    with c Inr show ?thesis by blast
  next
    case (Inl err)
    with step(2) st c obtain st' where "loop dOpen dir usefd endpoint st' = Some y"
      and "delegate (fst st') = d"
      by simp
    from step(1)[OF this(1)] this(2) obtain n errs dn cms d' where
      r: "rejects (\<lambda>d. dOpen d dir usefd endpoint) n d = Some (errs, dn)"
      and a: "dOpen dn dir usefd endpoint = (Inr cms, d')" by auto
    have "rejects (\<lambda>d. dOpen d dir usefd endpoint) (Suc n) (delegate (fst st)) =
            Some (err # errs, dn)"
      using r c Inl st by simp
    with a show ?thesis by blast
  qed
qed

lemma OpenStream_loop_returns:
  assumes "rejects (\<lambda>d. dOpen d p dir) n (delegate bprm) = Some (errs, dn)"
    and "dOpen dn p dir = (Inr str, d')"
  shows "OpenStream_loop dOpen p dir (bprm, tr) =
     Some (Inr str, bprm\<lparr>delegate := d', streamCount := streamCount bprm - 1\<rparr>,
           tr @ OpenStream_rounds p dir (streamCount bprm) errs @ [DelegateOpenStream p dir])"
  using assms
proof (induction n arbitrary: bprm tr errs)
  case 0
  then show ?case by (subst OpenStream_loop.simps) simp
next
  case (Suc n)
  from Suc.prems(1) obtain err d1 errs' where
    c: "dOpen (delegate bprm) p dir = (Inl err, d1)"
    and r: "rejects (\<lambda>d. dOpen d p dir) n d1 = Some (errs', dn)"
    and e: "errs = err # errs'"
    by (rule rejects_SucE)
  have "rejects (\<lambda>d. dOpen d p dir) n (delegate (bprm\<lparr>delegate := d1\<rparr>)) = Some (errs', dn)"
    using r by simp
  from Suc.IH[OF this Suc.prems(2)] c e show ?case
    by (subst OpenStream_loop.simps) simp
qed

lemma OpenStream_loop_only_if:
  assumes "OpenStream_loop dOpen p dir st = Some y"
  shows "\<exists>n errs dn str d'.
           rejects (\<lambda>d. dOpen d p dir) n (delegate (fst st)) = Some (errs, dn) \<and>
           dOpen dn p dir = (Inr str, d')"
  using assms
proof (induction dOpen p dir st y
        rule: OpenStream_loop.raw_induct[rotated 1, consumes 1, case_names step])
  case (step loop dOpen p dir st y)
  obtain bprm tr where st: "st = (bprm, tr)" by (cases st)
  obtain r d where c: "dOpen (delegate bprm) p dir = (r, d)"
    by (cases "dOpen (delegate bprm) p dir")
  show ?case
  proof (cases r)
    case (Inr str)
    have "rejects (\<lambda>d. dOpen d p dir) 0 (delegate (fst st)) = Some ([], delegate bprm)"
      by (simp add: st)
    with c Inr show ?thesis by blast
  next
    case (Inl err)
    with step(2) st c obtain st' where "loop dOpen p dir st' = Some y"
      and "delegate (fst st') = d"
      by simp
    from step(1)[OF this(1)] this(2) obtain n errs dn str d' where
      r: "rejects (\<lambda>d. dOpen d p dir) n d = Some (errs, dn)"
      and a: "dOpen dn p dir = (Inr str, d')" by auto
    have "rejects (\<lambda>d. dOpen d p dir) (Suc n) (delegate (fst st)) = Some (err # errs, dn)"
      using r c Inl st by simp
    with a show ?thesis by blast
  qed
qed

text \<open>
  Claim C1. Take any delegate that rejects \<open>n\<close> calls of \<open>OpenConnection\<close> in a row and
  admits the next one with scope \<open>cms\<close>. Then the wrapper's \<open>OpenConnection\<close> returns, and
  what it returns is \<open>cms\<close> and no error; the resource manager is left as it was but for the
  delegate's own state, so \<open>connCount\<close> is back at its value before the call; the call
  has waited \<open>n\<close> times, one second each, and has called the delegate \<open>n + 1\<close> times. This
  holds for every \<open>n\<close>: there is no bound on the retries. The same holds for \<open>OpenStream\<close>
  and \<open>streamCount\<close>.
\<close>

theorem OpenConnection_OpenStream_retry_until_admitted:
  "(rejects (\<lambda>d. delegate_OpenConnection d dir usefd endpoint) n (delegate bprm) =
      Some (errs, dn) \<and>
    delegate_OpenConnection dn dir usefd endpoint = (Inr cms, d') \<longrightarrow>
      (\<exists>tr'. OpenConnection delegate_OpenConnection bprm tr dir usefd endpoint =
                Some (Inr cms, bprm\<lparr>delegate := d'\<rparr>, tr') \<and>
             connCount (bprm\<lparr>delegate := d'\<rparr>) = connCount bprm \<and>
             sleeps tr' = sleeps tr @ replicate n 1 \<and>
             delegate_calls tr' =
               delegate_calls tr @ replicate (Suc n) (DelegateOpenConnection dir usefd endpoint))) \<and>
   (rejects (\<lambda>d. delegate_OpenStream d p dir) n (delegate bprm) = Some (errs, dn) \<and>
    delegate_OpenStream dn p dir = (Inr str, d') \<longrightarrow>
      (\<exists>tr'. OpenStream delegate_OpenStream bprm tr p dir =
                Some (Inr str, bprm\<lparr>delegate := d'\<rparr>, tr') \<and>
             streamCount (bprm\<lparr>delegate := d'\<rparr>) = streamCount bprm \<and>
             sleeps tr' = sleeps tr @ replicate n 1 \<and>
             delegate_calls tr' =
               delegate_calls tr @ replicate (Suc n) (DelegateOpenStream p dir)))"
proof (intro conjI impI)
  assume a: "rejects (\<lambda>d. delegate_OpenConnection d dir usefd endpoint) n (delegate bprm) =
      Some (errs, dn) \<and>
    delegate_OpenConnection dn dir usefd endpoint = (Inr cms, d')"
  let ?b = "bprm\<lparr>connCount := connCount bprm + 1\<rparr>"
  let ?tr = "tr @ OpenConnection_rounds dir usefd endpoint (connCount ?b) errs
                @ [DelegateOpenConnection dir usefd endpoint]"
  from a have r: "rejects (\<lambda>d. delegate_OpenConnection d dir usefd endpoint) n (delegate ?b) =
      Some (errs, dn)" by simp
  from a have len: "length errs = n" by (auto dest: rejects_length)
  have "OpenConnection delegate_OpenConnection bprm tr dir usefd endpoint =
          Some (Inr cms, ?b\<lparr>delegate := d', connCount := connCount ?b - 1\<rparr>, ?tr)"
    unfolding OpenConnection_def
    using a OpenConnection_loop_returns
              [where dOpen = delegate_OpenConnection and dir = dir and usefd = usefd
                 and endpoint = endpoint and bprm = "?b" and tr = tr, OF r]
    by simp
  moreover have "?b\<lparr>delegate := d', connCount := connCount ?b - 1\<rparr> = bprm\<lparr>delegate := d'\<rparr>"
    by simp
  moreover have "sleeps ?tr = sleeps tr @ replicate n 1"
    by (simp add: sleeps_append OpenConnection_rounds_sleeps len)
  moreover have "delegate_calls ?tr =
      delegate_calls tr @ replicate (Suc n) (DelegateOpenConnection dir usefd endpoint)"
    by (simp add: delegate_calls_append OpenConnection_rounds_calls len delegate_calls_single
          replicate_append_same)
  ultimately show "\<exists>tr'. OpenConnection delegate_OpenConnection bprm tr dir usefd endpoint =
                Some (Inr cms, bprm\<lparr>delegate := d'\<rparr>, tr') \<and>
             connCount (bprm\<lparr>delegate := d'\<rparr>) = connCount bprm \<and>
             sleeps tr' = sleeps tr @ replicate n 1 \<and>
             delegate_calls tr' =
               delegate_calls tr @ replicate (Suc n) (DelegateOpenConnection dir usefd endpoint)"
    by simp
next
  assume a: "rejects (\<lambda>d. delegate_OpenStream d p dir) n (delegate bprm) = Some (errs, dn) \<and>
    delegate_OpenStream dn p dir = (Inr str, d')"
  let ?b = "bprm\<lparr>streamCount := streamCount bprm + 1\<rparr>"
  let ?tr = "tr @ OpenStream_rounds p dir (streamCount ?b) errs @ [DelegateOpenStream p dir]"
  from a have r: "rejects (\<lambda>d. delegate_OpenStream d p dir) n (delegate ?b) = Some (errs, dn)"
    by simp
  from a have len: "length errs = n" by (auto dest: rejects_length)
  have "OpenStream delegate_OpenStream bprm tr p dir =
          Some (Inr str, ?b\<lparr>delegate := d', streamCount := streamCount ?b - 1\<rparr>, ?tr)"
    unfolding OpenStream_def
    using a OpenStream_loop_returns
              [where dOpen = delegate_OpenStream and p = p and dir = dir and bprm = "?b"
                 and tr = tr, OF r]
    by simp
  moreover have "?b\<lparr>delegate := d', streamCount := streamCount ?b - 1\<rparr> = bprm\<lparr>delegate := d'\<rparr>"
    by simp
  moreover have "sleeps ?tr = sleeps tr @ replicate n 1"
    by (simp add: sleeps_append OpenStream_rounds_sleeps len)
  moreover have "delegate_calls ?tr =
      delegate_calls tr @ replicate (Suc n) (DelegateOpenStream p dir)"
    by (simp add: delegate_calls_append OpenStream_rounds_calls len delegate_calls_single
          replicate_append_same)
  ultimately show "\<exists>tr'. OpenStream delegate_OpenStream bprm tr p dir =
                Some (Inr str, bprm\<lparr>delegate := d'\<rparr>, tr') \<and>
             streamCount (bprm\<lparr>delegate := d'\<rparr>) = streamCount bprm \<and>
             sleeps tr' = sleeps tr @ replicate n 1 \<and>
             delegate_calls tr' =
               delegate_calls tr @ replicate (Suc n) (DelegateOpenStream p dir)"
    by simp
qed

theorem OpenConnection_OpenStream_retry_until_admitted_witness:
  "(\<exists>tr'. OpenConnection (\<lambda>d dir usefd endpoint. admits_after 2 d)
             \<lparr>delegate = 0, connCount = 7, streamCount = 3\<rparr> [] DirInbound True
             ''/ip4/127.0.0.1/tcp/4001'' =
           Some (Inr 2, \<lparr>delegate = 3, connCount = 7, streamCount = 3\<rparr>,
                 (tr' :: (string, string, string) event list)) \<and>
         sleeps tr' = [1, 1] \<and>
         delegate_calls tr' =
           [DelegateOpenConnection DirInbound True ''/ip4/127.0.0.1/tcp/4001'',
            DelegateOpenConnection DirInbound True ''/ip4/127.0.0.1/tcp/4001'',
            DelegateOpenConnection DirInbound True ''/ip4/127.0.0.1/tcp/4001'']) \<and>
   (\<exists>tr'. OpenStream (\<lambda>d p dir. admits_after 2 d)
             \<lparr>delegate = 0, connCount = 7, streamCount = 3\<rparr> [] ''QmPeer'' DirInbound =
           Some (Inr 2, \<lparr>delegate = 3, connCount = 7, streamCount = 3\<rparr>,
                 (tr' :: (string, string, string) event list)) \<and>
         sleeps tr' = [1, 1] \<and>
         delegate_calls tr' =
           [DelegateOpenStream ''QmPeer'' DirInbound, DelegateOpenStream ''QmPeer'' DirInbound,
            DelegateOpenStream ''QmPeer'' DirInbound])"
  using OpenConnection_OpenStream_retry_until_admitted
          [where delegate_OpenConnection = "\<lambda>d dir usefd endpoint. admits_after 2 d"
             and delegate_OpenStream = "\<lambda>d p dir. admits_after 2 d"
             and bprm = "\<lparr>delegate = 0, connCount = 7, streamCount = 3\<rparr>"
             and tr = "[] :: (string, string, string) event list"
             and dir = DirInbound and usefd = True and endpoint = "''/ip4/127.0.0.1/tcp/4001''"
             and p = "''QmPeer''"
             and n = "Suc (Suc 0)"
             and errs = "[''resource limit exceeded'', ''resource limit exceeded'']"
             and dn = 2 and cms = 2 and str = 2 and d' = 3]
  by (simp add: admits_after_def delegate_calls_def)

lemma BeginSpan_returns:
  assumes "rejects delegate_BeginSpan n (span_delegate rss) = Some (errs, dn)"
    and "delegate_BeginSpan dn = (Inr span, d')"
  shows "BeginSpan delegate_BeginSpan (rss, tr) =
     Some (Inr span, rss\<lparr>span_delegate := d', counter := counter rss + of_nat n - 1\<rparr>,
           tr @ BeginSpan_rounds (counter rss) errs @ [DelegateBeginSpan])"
  using assms
proof (induction n arbitrary: rss tr errs)
  case 0
  then show ?case by (subst BeginSpan.simps) simp
next
  case (Suc n)
  from Suc.prems(1) obtain err d1 errs' where
    c: "delegate_BeginSpan (span_delegate rss) = (Inl err, d1)"
    and r: "rejects delegate_BeginSpan n d1 = Some (errs', dn)"
    and e: "errs = err # errs'"
    by (rule rejects_SucE)
  let ?rss = "rss\<lparr>span_delegate := d1, counter := counter rss + 1\<rparr>"
  have "rejects delegate_BeginSpan n (span_delegate ?rss) = Some (errs', dn)"
    using r by simp
  from Suc.IH[OF this Suc.prems(2)] c e show ?case
    by (subst BeginSpan.simps) (simp add: add.assoc)
qed

lemma BeginSpan_only_if:
  assumes "BeginSpan delegate_BeginSpan st = Some y"
  shows "\<exists>n errs dn span d'.
           rejects delegate_BeginSpan n (span_delegate (fst st)) = Some (errs, dn) \<and>
           delegate_BeginSpan dn = (Inr span, d')"
  using assms
proof (induction delegate_BeginSpan st y
        rule: BeginSpan.raw_induct[rotated 1, consumes 1, case_names step])
  case (step loop delegate_BeginSpan st y)
  obtain rss tr where st: "st = (rss, tr)" by (cases st)
  obtain r d where c: "delegate_BeginSpan (span_delegate rss) = (r, d)"
    by (cases "delegate_BeginSpan (span_delegate rss)")
  show ?case
  proof (cases r)
    case (Inr span)
    have "rejects delegate_BeginSpan 0 (span_delegate (fst st)) = Some ([], span_delegate rss)"
      by (simp add: st)
    with c Inr show ?thesis by blast
  next
    case (Inl err)
    with step(2) st c obtain st' where "loop delegate_BeginSpan st' = Some y"
      and "span_delegate (fst st') = d"
      by simp
    from step(1)[OF this(1)] this(2) obtain n errs dn span d' where
      r: "rejects delegate_BeginSpan n d = Some (errs, dn)"
      and a: "delegate_BeginSpan dn = (Inr span, d')" by auto
    have "rejects delegate_BeginSpan (Suc n) (span_delegate (fst st)) = Some (err # errs, dn)"
      using r c Inl st by simp
    with a show ?thesis by blast
  qed
qed

lemma counter_back_iff:
  "((c :: 64 word) + of_nat n - 1 = c) = (n mod 2 ^ 64 = 1)"
proof -
  have "(c + of_nat n - 1 = c) = (of_nat n - 1 = (0 :: 64 word))"
    by (simp add: add_diff_eq[symmetric])
  also have "\<dots> = (of_nat n = (of_nat 1 :: 64 word))" by simp
  also have "\<dots> = (n mod 2 ^ 64 = 1)"
    by (simp only: word_of_nat_eq_iff take_bit_eq_mod) simp
  finally show ?thesis .
qed

text \<open>
  Claim C4, as stated, fails: the success path of \<open>BeginSpan\<close> does take the counter down
  by one. After exactly one failed attempt the counter, started at zero, is back at zero
  when the admitted span is returned.
\<close>

theorem BeginSpan_counter_back_at_zero_counterexample:
  "BeginSpan (admits_after 1)
     (\<lparr>span_delegate = 0, counter = 0\<rparr>, [] :: (string, string, string) event list) =
   Some (Inr 1, \<lparr>span_delegate = 2, counter = 0\<rparr>,
         [DelegateBeginSpan,
          Println [PString ''BEGIN SPAN, RETRYING'', PError ''resource limit exceeded'', PInt64 1],
          Sleep 1,
          Println [PString ''RETRYING SPAN'', PInt64 1],
          DelegateBeginSpan])"
proof -
  have "rejects (admits_after 1) (Suc 0) (span_delegate \<lparr>span_delegate = 0, counter = 0\<rparr>) =
          Some ([''resource limit exceeded''], 1)"
    by (simp add: admits_after_def)
  moreover have "admits_after 1 1 = (Inr 1, 2)"
    by (simp add: admits_after_def)
  ultimately show ?thesis
    using BeginSpan_returns
            [where delegate_BeginSpan = "admits_after 1" and n = "Suc 0"
               and rss = "\<lparr>span_delegate = 0, counter = 0\<rparr>"
               and tr = "[] :: (string, string, string) event list"]
    by simp
qed

text \<open>
  Claim C4, amended. \<open>BeginSpan\<close> follows the same retry policy as \<open>OpenConnection\<close>: for any
  delegate span that rejects \<open>n\<close> calls in a row and admits the next one, it returns the
  admitted span and no error after \<open>n\<close> waits of one second and \<open>n + 1\<close> calls of the
  delegate, for every \<open>n\<close>. Its own counter goes up by one after each failed attempt and
  down by one on the success, so it ends at its value before the call plus \<open>n - 1\<close> (in
  64-bit arithmetic): back at the value before the call exactly when one attempt failed.
\<close>

theorem BeginSpan_retry_until_admitted:
  "(rejects delegate_BeginSpan n (span_delegate rss) = Some (errs, dn) \<and>
    delegate_BeginSpan dn = (Inr span, d') \<longrightarrow>
      (\<exists>tr'. BeginSpan delegate_BeginSpan (rss, tr) =
                Some (Inr span,
                      rss\<lparr>span_delegate := d', counter := counter rss + of_nat n - 1\<rparr>, tr') \<and>
             sleeps tr' = sleeps tr @ replicate n 1 \<and>
             delegate_calls tr' = delegate_calls tr @ replicate (Suc n) DelegateBeginSpan)) \<and>
   ((counter rss + of_nat n - 1 = counter rss) = (n mod 2 ^ 64 = 1))"
proof (intro conjI impI)
  assume a: "rejects delegate_BeginSpan n (span_delegate rss) = Some (errs, dn) \<and>
    delegate_BeginSpan dn = (Inr span, d')"
  let ?tr = "tr @ BeginSpan_rounds (counter rss) errs @ [DelegateBeginSpan]"
  from a have len: "length errs = n" by (auto dest: rejects_length)
  from a have "BeginSpan delegate_BeginSpan (rss, tr) =
      Some (Inr span, rss\<lparr>span_delegate := d', counter := counter rss + of_nat n - 1\<rparr>, ?tr)"
    by (simp add: BeginSpan_returns)
  moreover have "sleeps ?tr = sleeps tr @ replicate n 1"
    by (simp add: sleeps_append BeginSpan_rounds_sleeps len)
  moreover have "delegate_calls ?tr = delegate_calls tr @ replicate (Suc n) DelegateBeginSpan"
    by (simp add: delegate_calls_append BeginSpan_rounds_calls len delegate_calls_single
          replicate_append_same)
  ultimately show "\<exists>tr'. BeginSpan delegate_BeginSpan (rss, tr) =
                Some (Inr span,
                      rss\<lparr>span_delegate := d', counter := counter rss + of_nat n - 1\<rparr>, tr') \<and>
             sleeps tr' = sleeps tr @ replicate n 1 \<and>
             delegate_calls tr' = delegate_calls tr @ replicate (Suc n) DelegateBeginSpan"
    by simp
next
  show "(counter rss + of_nat n - 1 = counter rss) = (n mod 2 ^ 64 = 1)"
    by (rule counter_back_iff)
qed

theorem BeginSpan_retry_until_admitted_witness:
  "(\<exists>tr'. BeginSpan (admits_after 2)
             (\<lparr>span_delegate = 0, counter = 0\<rparr>, [] :: (string, string, string) event list) =
           Some (Inr 2, \<lparr>span_delegate = 3, counter = 1\<rparr>, tr') \<and>
         sleeps tr' = [1, 1] \<and>
         delegate_calls tr' = [DelegateBeginSpan, DelegateBeginSpan, DelegateBeginSpan])"
  using BeginSpan_retry_until_admitted
          [where delegate_BeginSpan = "admits_after 2"
             and rss = "\<lparr>span_delegate = 0, counter = 0\<rparr>"
             and tr = "[] :: (string, string, string) event list"
             and n = "Suc (Suc 0)"
             and errs = "[''resource limit exceeded'', ''resource limit exceeded'']"
             and dn = 2 and span = 2 and d' = 3]
  by (simp add: admits_after_def delegate_calls_def)

section \<open>Memory reservation\<close>

text \<open>
  Claim C5. \<open>ReserveMemory\<close> calls the delegate once and does not wait or call again. When
  the delegate fails, its error is the result, unchanged; the wrapper adds no change of its
  own to the scope, whose state after the call is the one the delegate's one call left, so
  a delegate that reserves nothing when it fails (its state is as before) leaves the whole
  wrapped scope as before. When the delegate succeeds the result is nil.
\<close>

theorem ReserveMemory_single_attempt:
  "(delegate_ReserveMemory (span_delegate rss) size' prio = (Some err, d') \<longrightarrow>
      ReserveMemory delegate_ReserveMemory rss tr size' prio =
        (Some err, rss\<lparr>span_delegate := d'\<rparr>,
         tr @ [DelegateReserveMemory size' prio,
               Println [PString ''++++++++++++++++++++++++++++++++++++++ RESERVE MEMORY ERROR'',
                        PError err]])) \<and>
   (delegate_ReserveMemory (span_delegate rss) size' prio = (None, d') \<longrightarrow>
      ReserveMemory delegate_ReserveMemory rss tr size' prio =
        (None, rss\<lparr>span_delegate := d'\<rparr>, tr @ [DelegateReserveMemory size' prio])) \<and>
   (delegate_ReserveMemory (span_delegate rss) size' prio = (Some err, span_delegate rss) \<longrightarrow>
      fst (snd (ReserveMemory delegate_ReserveMemory rss tr size' prio)) = rss) \<and>
   delegate_calls (snd (snd (ReserveMemory delegate_ReserveMemory rss tr size' prio))) =
     delegate_calls tr @ [DelegateReserveMemory size' prio] \<and>
   sleeps (snd (snd (ReserveMemory delegate_ReserveMemory rss tr size' prio))) = sleeps tr"
proof -
  obtain r d where c: "delegate_ReserveMemory (span_delegate rss) size' prio = (r, d)"
    by (cases "delegate_ReserveMemory (span_delegate rss) size' prio")
  show ?thesis
  proof (cases r)
    case None
    with c show ?thesis
      by (simp add: ReserveMemory_def delegate_calls_def sleeps_append)
  next
    case (Some e)
    with c show ?thesis
      by (simp add: ReserveMemory_def delegate_calls_def sleeps_append)
  qed
qed

theorem ReserveMemory_single_attempt_witness:
  "ReserveMemory limited_ReserveMemory \<lparr>span_delegate = 90, counter = 0\<rparr>
     ([] :: (string, string, string) event list) 20 255 =
     (Some ''memory limit exceeded'', \<lparr>span_delegate = 90, counter = 0\<rparr>,
      [DelegateReserveMemory 20 255,
       Println [PString ''++++++++++++++++++++++++++++++++++++++ RESERVE MEMORY ERROR'',
                PError ''memory limit exceeded'']]) \<and>
   ReserveMemory limited_ReserveMemory \<lparr>span_delegate = 90, counter = 0\<rparr>
     ([] :: (string, string, string) event list) 5 255 =
     (None, \<lparr>span_delegate = 95, counter = 0\<rparr>, [DelegateReserveMemory 5 255])"
  using ReserveMemory_single_attempt
          [where delegate_ReserveMemory = limited_ReserveMemory
             and rss = "\<lparr>span_delegate = 90, counter = 0\<rparr>"
             and tr = "[] :: (string, string, string) event list"
             and size' = 20 and prio = 255 and err = "''memory limit exceeded''" and d' = 90]
        ReserveMemory_single_attempt
          [where delegate_ReserveMemory = limited_ReserveMemory
             and rss = "\<lparr>span_delegate = 90, counter = 0\<rparr>"
             and tr = "[] :: (string, string, string) event list"
             and size' = 5 and prio = 255 and err = "''memory limit exceeded''" and d' = 95]
  by (simp add: limited_ReserveMemory_def)

section \<open>The counters and admission\<close>

lemma OpenConnection_loop_observed:
  assumes "delegate b1 = delegate b2"
    and "delegate_calls tr1 = delegate_calls tr2" and "sleeps tr1 = sleeps tr2"
  shows "map_option (\<lambda>(r, b, tr). (r, delegate b, delegate_calls tr, sleeps tr))
           (OpenConnection_loop dOpen dir usefd endpoint (b1, tr1)) =
         map_option (\<lambda>(r, b, tr). (r, delegate b, delegate_calls tr, sleeps tr))
           (OpenConnection_loop dOpen dir usefd endpoint (b2, tr2))"
proof -
  have returns: "\<exists>n errs dn cms d'.
      rejects (\<lambda>d. dOpen d dir usefd endpoint) n (delegate b1) = Some (errs, dn) \<and>
      dOpen dn dir usefd endpoint = (Inr cms, d')"
    if "OpenConnection_loop dOpen dir usefd endpoint (b1, tr1) \<noteq> None \<or>
        OpenConnection_loop dOpen dir usefd endpoint (b2, tr2) \<noteq> None"
    using that assms(1)
      OpenConnection_loop_only_if[of dOpen dir usefd endpoint "(b1, tr1)"]
      OpenConnection_loop_only_if[of dOpen dir usefd endpoint "(b2, tr2)"]
    by auto
  show ?thesis
  proof (cases "OpenConnection_loop dOpen dir usefd endpoint (b1, tr1) = None \<and>
                OpenConnection_loop dOpen dir usefd endpoint (b2, tr2) = None")
    case True
    then show ?thesis by simp
  next
    case False
    then obtain n errs dn cms d' where
      r1: "rejects (\<lambda>d. dOpen d dir usefd endpoint) n (delegate b1) = Some (errs, dn)"
      and a: "dOpen dn dir usefd endpoint = (Inr cms, d')"
      using returns by blast
    from r1 assms(1) have
      r2: "rejects (\<lambda>d. dOpen d dir usefd endpoint) n (delegate b2) = Some (errs, dn)"
      by simp
    show ?thesis
      by (simp add:
            OpenConnection_loop_returns
              [where dOpen = dOpen and dir = dir and usefd = usefd and endpoint = endpoint,
               OF r1 a]
            OpenConnection_loop_returns
              [where dOpen = dOpen and dir = dir and usefd = usefd and endpoint = endpoint,
               OF r2 a]
            delegate_calls_append sleeps_append OpenConnection_rounds_calls
            OpenConnection_rounds_sleeps assms)
  qed
qed

lemma OpenStream_loop_observed:
  assumes "delegate b1 = delegate b2"
    and "delegate_calls tr1 = delegate_calls tr2" and "sleeps tr1 = sleeps tr2"
  shows "map_option (\<lambda>(r, b, tr). (r, delegate b, delegate_calls tr, sleeps tr))
           (OpenStream_loop dOpen p dir (b1, tr1)) =
         map_option (\<lambda>(r, b, tr). (r, delegate b, delegate_calls tr, sleeps tr))
           (OpenStream_loop dOpen p dir (b2, tr2))"
proof -
  have returns: "\<exists>n errs dn str d'.
      rejects (\<lambda>d. dOpen d p dir) n (delegate b1) = Some (errs, dn) \<and>
      dOpen dn p dir = (Inr str, d')"
    if "OpenStream_loop dOpen p dir (b1, tr1) \<noteq> None \<or>
        OpenStream_loop dOpen p dir (b2, tr2) \<noteq> None"
    using that assms(1)
      OpenStream_loop_only_if[of dOpen p dir "(b1, tr1)"]
      OpenStream_loop_only_if[of dOpen p dir "(b2, tr2)"]
    by auto
  show ?thesis
  proof (cases "OpenStream_loop dOpen p dir (b1, tr1) = None \<and>
                OpenStream_loop dOpen p dir (b2, tr2) = None")
    case True
    then show ?thesis by simp
  next
    case False
    then obtain n errs dn str d' where
      r1: "rejects (\<lambda>d. dOpen d p dir) n (delegate b1) = Some (errs, dn)"
      and a: "dOpen dn p dir = (Inr str, d')"
      using returns by blast
    from r1 assms(1) have r2: "rejects (\<lambda>d. dOpen d p dir) n (delegate b2) = Some (errs, dn)"
      by simp
    show ?thesis
      by (simp add:
            OpenStream_loop_returns[where dOpen = dOpen and p = p and dir = dir, OF r1 a]
            OpenStream_loop_returns[where dOpen = dOpen and p = p and dir = dir, OF r2 a]
            delegate_calls_append sleeps_append OpenStream_rounds_calls
            OpenStream_rounds_sleeps assms)
  qed
qed

lemma BeginSpan_observed:
  assumes "span_delegate s1 = span_delegate s2"
    and "delegate_calls tr1 = delegate_calls tr2" and "sleeps tr1 = sleeps tr2"
  shows "map_option (\<lambda>(r, s, tr). (r, span_delegate s, delegate_calls tr, sleeps tr))
           (BeginSpan dBegin (s1, tr1)) =
         map_option (\<lambda>(r, s, tr). (r, span_delegate s, delegate_calls tr, sleeps tr))
           (BeginSpan dBegin (s2, tr2))"
proof -
  have returns: "\<exists>n errs dn span d'.
      rejects dBegin n (span_delegate s1) = Some (errs, dn) \<and> dBegin dn = (Inr span, d')"
    if "BeginSpan dBegin (s1, tr1) \<noteq> None \<or> BeginSpan dBegin (s2, tr2) \<noteq> None"
    using that assms(1)
      BeginSpan_only_if[of dBegin "(s1, tr1)"] BeginSpan_only_if[of dBegin "(s2, tr2)"]
    by auto
  show ?thesis
  proof (cases "BeginSpan dBegin (s1, tr1) = None \<and> BeginSpan dBegin (s2, tr2) = None")
    case True
    then show ?thesis by simp
  next
    case False
    then obtain n errs dn span d' where
      r1: "rejects dBegin n (span_delegate s1) = Some (errs, dn)"
      and a: "dBegin dn = (Inr span, d')"
      using returns by blast
    from r1 assms(1) have r2: "rejects dBegin n (span_delegate s2) = Some (errs, dn)"
      by simp
    show ?thesis
      by (simp add: BeginSpan_returns[OF r1 a] BeginSpan_returns[OF r2 a]
            delegate_calls_append sleeps_append BeginSpan_rounds_calls
            BeginSpan_rounds_sleeps assms)
  qed
qed

text \<open>
  Claim C9. The counters take no part in admission. Two calls of \<open>OpenConnection\<close> (of
  \<open>OpenStream\<close>, of \<open>BeginSpan\<close>) that differ only in the values of the counters at the
  start either both never return, or both return: then with the same scope and error, the
  same sequence of delegate calls, the same waits, and the delegate in the same state.
\<close>

theorem counters_never_gate_admission:
  "map_option (\<lambda>(r, b, tr'). (r, delegate b, delegate_calls tr', sleeps tr'))
     (OpenConnection delegate_OpenConnection (bprm\<lparr>connCount := c1, streamCount := s1\<rparr>) tr
        dir usefd endpoint) =
   map_option (\<lambda>(r, b, tr'). (r, delegate b, delegate_calls tr', sleeps tr'))
     (OpenConnection delegate_OpenConnection (bprm\<lparr>connCount := c2, streamCount := s2\<rparr>) tr
        dir usefd endpoint) \<and>
   map_option (\<lambda>(r, b, tr'). (r, delegate b, delegate_calls tr', sleeps tr'))
     (OpenStream delegate_OpenStream (bprm\<lparr>connCount := c1, streamCount := s1\<rparr>) tr p dir) =
   map_option (\<lambda>(r, b, tr'). (r, delegate b, delegate_calls tr', sleeps tr'))
     (OpenStream delegate_OpenStream (bprm\<lparr>connCount := c2, streamCount := s2\<rparr>) tr p dir) \<and>
   map_option (\<lambda>(r, s, tr'). (r, span_delegate s, delegate_calls tr', sleeps tr'))
     (BeginSpan delegate_BeginSpan (rss\<lparr>counter := c1\<rparr>, tr)) =
   map_option (\<lambda>(r, s, tr'). (r, span_delegate s, delegate_calls tr', sleeps tr'))
     (BeginSpan delegate_BeginSpan (rss\<lparr>counter := c2\<rparr>, tr))"
proof (intro conjI)
  show "map_option (\<lambda>(r, b, tr'). (r, delegate b, delegate_calls tr', sleeps tr'))
     (OpenConnection delegate_OpenConnection (bprm\<lparr>connCount := c1, streamCount := s1\<rparr>) tr
        dir usefd endpoint) =
   map_option (\<lambda>(r, b, tr'). (r, delegate b, delegate_calls tr', sleeps tr'))
     (OpenConnection delegate_OpenConnection (bprm\<lparr>connCount := c2, streamCount := s2\<rparr>) tr
        dir usefd endpoint)"
    unfolding OpenConnection_def by (rule OpenConnection_loop_observed) simp_all
  show "map_option (\<lambda>(r, b, tr'). (r, delegate b, delegate_calls tr', sleeps tr'))
     (OpenStream delegate_OpenStream (bprm\<lparr>connCount := c1, streamCount := s1\<rparr>) tr p dir) =
   map_option (\<lambda>(r, b, tr'). (r, delegate b, delegate_calls tr', sleeps tr'))
     (OpenStream delegate_OpenStream (bprm\<lparr>connCount := c2, streamCount := s2\<rparr>) tr p dir)"
    unfolding OpenStream_def by (rule OpenStream_loop_observed) simp_all
  show "map_option (\<lambda>(r, s, tr'). (r, span_delegate s, delegate_calls tr', sleeps tr'))
     (BeginSpan delegate_BeginSpan (rss\<lparr>counter := c1\<rparr>, tr)) =
   map_option (\<lambda>(r, s, tr'). (r, span_delegate s, delegate_calls tr', sleeps tr'))
     (BeginSpan delegate_BeginSpan (rss\<lparr>counter := c2\<rparr>, tr))"
    by (rule BeginSpan_observed) simp_all
qed

end
